theory Spec2Isabelle
  imports Complex_Main "HOL-Library.Sublist"
begin

section \<open>Numbers and the JavaScript Math library\<close>

text \<open>
  JavaScript numbers are modelled as real numbers: \<open>NaN\<close>, the infinities, signed zeros and
  rounding are outside the model.  \<open>Math.hypot\<close>, \<open>Math.exp\<close>, \<open>Math.cos\<close>, \<open>Math.sin\<close>,
  \<open>Math.acos\<close> and \<open>Math.sqrt\<close> are the functions of the same name on the reals.
\<close>

text \<open>The remainder operator \<open>a % b\<close>: the result has the sign of the dividend.\<close>

definition js_trunc :: "real \<Rightarrow> int" where
  "js_trunc v = (if 0 \<le> v then \<lfloor>v\<rfloor> else \<lceil>v\<rceil>)"

definition js_rem :: "real \<Rightarrow> real \<Rightarrow> real" where
  "js_rem a b = a - b * of_int (js_trunc (a / b))"

definition hypot :: "real \<Rightarrow> real \<Rightarrow> real" where
  "hypot a b = sqrt (a * a + b * b)"

text \<open>\<open>Math.atan2(y, x)\<close>, the angle of the point \<open>(x, y)\<close> in \<open>(-pi, pi]\<close>; \<open>atan2(0, 0) = 0\<close>.\<close>

definition atan2 :: "real \<Rightarrow> real \<Rightarrow> real" where
  "atan2 b a =
     (if 0 < a then arctan (b / a)
      else if a < 0 then (if 0 \<le> b then arctan (b / a) + pi else arctan (b / a) - pi)
      else if 0 < b then pi / 2
      else if b < 0 then - (pi / 2)
      else 0)"

section \<open>math.js: MathUtils, Vector2, Matrix3\<close>

definition MathUtils_clamp :: "real \<Rightarrow> real \<Rightarrow> real \<Rightarrow> real" where
  "MathUtils_clamp v lo hi = max lo (min hi v)"

definition MathUtils_lerp :: "real \<Rightarrow> real \<Rightarrow> real \<Rightarrow> real" where
  "MathUtils_lerp a b t = a + (b - a) * t"

record Vector2 =
  x :: real
  y :: real

definition Vector2_add :: "Vector2 \<Rightarrow> Vector2 \<Rightarrow> Vector2" where
  "Vector2_add u v = \<lparr>x = x u + x v, y = y u + y v\<rparr>"

definition Vector2_subtract :: "Vector2 \<Rightarrow> Vector2 \<Rightarrow> Vector2" where
  "Vector2_subtract u v = \<lparr>x = x u - x v, y = y u - y v\<rparr>"

definition Vector2_multiply :: "Vector2 \<Rightarrow> real \<Rightarrow> Vector2" where
  "Vector2_multiply u k = \<lparr>x = x u * k, y = y u * k\<rparr>"

definition Vector2_divide :: "Vector2 \<Rightarrow> real \<Rightarrow> Vector2" where
  "Vector2_divide u k = \<lparr>x = x u / k, y = y u / k\<rparr>"

definition Vector2_magnitude :: "Vector2 \<Rightarrow> real" where
  "Vector2_magnitude u = sqrt (x u * x u + y u * y u)"

definition Vector2_normalize :: "Vector2 \<Rightarrow> Vector2" where
  "Vector2_normalize u =
     (let mag = Vector2_magnitude u
      in if mag = 0 then \<lparr>x = 0, y = 0\<rparr> else Vector2_divide u mag)"

definition Vector2_dot :: "Vector2 \<Rightarrow> Vector2 \<Rightarrow> real" where
  "Vector2_dot u v = x u * x v + y u * y v"

definition Vector2_cross :: "Vector2 \<Rightarrow> Vector2 \<Rightarrow> real" where
  "Vector2_cross u v = x u * y v - y u * x v"

definition Vector2_angle :: "Vector2 \<Rightarrow> real" where
  "Vector2_angle u = atan2 (y u) (x u)"


definition Vector2_distance :: "Vector2 \<Rightarrow> Vector2 \<Rightarrow> real" where
  "Vector2_distance a b = Vector2_magnitude (Vector2_subtract a b)"

text \<open>
  A \<open>Matrix3\<close> holds the array \<open>elements\<close> of nine numbers, row by row; points are row
  vectors, multiplied from the left.
\<close>

datatype Matrix3 = Matrix3 (elements: "real list")

text \<open>
  What a call can do instead of returning a value: throw the \<open>Error\<close> of \<open>Matrix3.inverse\<close>,
  throw a \<open>TypeError\<close> (a property read on \<open>undefined\<close> or \<open>null\<close>, or destructuring
  \<open>undefined\<close>), throw a \<open>RangeError\<close> (the call stack is exhausted), or never return.
  \<open>NotANumber\<close> is not an exception of the source: it marks the point where the source goes
  on computing with \<open>NaN\<close>, which the real numbers of the model do not have; the model
  stops there and says nothing about the rest of such a run.
\<close>

datatype error = NotInvertible | TypeError | RangeError | NoReturn | NotANumber

definition Matrix3_identity :: Matrix3 where
  "Matrix3_identity = Matrix3 [1, 0, 0,  0, 1, 0,  0, 0, 1]"

definition Matrix3_translation :: "real \<Rightarrow> real \<Rightarrow> Matrix3" where
  "Matrix3_translation tx ty = Matrix3 [1, 0, 0,  0, 1, 0,  tx, ty, 1]"

definition Matrix3_rotation :: "real \<Rightarrow> Matrix3" where
  "Matrix3_rotation a = Matrix3 [cos a, sin a, 0,  - sin a, cos a, 0,  0, 0, 1]"

text \<open>The three nested loops of \<open>multiply\<close>: entry \<open>i * 3 + j\<close> starts at 0 and adds over \<open>k\<close>.\<close>

definition Matrix3_multiply :: "Matrix3 \<Rightarrow> Matrix3 \<Rightarrow> Matrix3" where
  "Matrix3_multiply m other =
     (let a = elements m; b = elements other
      in Matrix3 (concat (map (\<lambda>i. map (\<lambda>j.
            fold (\<lambda>k acc. acc + a ! (i * 3 + k) * b ! (k * 3 + j)) [0..<3] 0) [0..<3]) [0..<3])))"

definition Matrix3_transformPoint :: "Matrix3 \<Rightarrow> Vector2 \<Rightarrow> Vector2" where
  "Matrix3_transformPoint m p =
     (let e = elements m;
          w = x p * e ! 2 + y p * e ! 5 + e ! 8
      in \<lparr>x = (x p * e ! 0 + y p * e ! 3 + e ! 6) / w,
          y = (x p * e ! 1 + y p * e ! 4 + e ! 7) / w\<rparr>)"

definition Matrix3_transformVector :: "Matrix3 \<Rightarrow> Vector2 \<Rightarrow> Vector2" where
  "Matrix3_transformVector m v =
     (let e = elements m
      in \<lparr>x = x v * e ! 0 + y v * e ! 3,
          y = x v * e ! 1 + y v * e ! 4\<rparr>)"

definition Matrix3_determinant :: "Matrix3 \<Rightarrow> real" where
  "Matrix3_determinant m =
     (let e = elements m
      in e ! 0 * (e ! 4 * e ! 8 - e ! 5 * e ! 7) -
         e ! 1 * (e ! 3 * e ! 8 - e ! 5 * e ! 6) +
         e ! 2 * (e ! 3 * e ! 7 - e ! 4 * e ! 6))"

text \<open>\<open>inverse\<close> throws \<open>Error('Matrix is not invertible')\<close> when \<open>|det| < 1e-10\<close>.\<close>

definition Matrix3_inverse :: "Matrix3 \<Rightarrow> error + Matrix3" where
  "Matrix3_inverse m =
     (let e = elements m;
          det = Matrix3_determinant m
      in if \<bar>det\<bar> < 1 / 10 ^ 10 then Inl NotInvertible
         else let invDet = 1 / det
              in Inr (Matrix3
                [(e ! 4 * e ! 8 - e ! 5 * e ! 7) * invDet,
                 (e ! 2 * e ! 7 - e ! 1 * e ! 8) * invDet,
                 (e ! 1 * e ! 5 - e ! 2 * e ! 4) * invDet,
                 (e ! 5 * e ! 6 - e ! 3 * e ! 8) * invDet,
                 (e ! 0 * e ! 8 - e ! 2 * e ! 6) * invDet,
                 (e ! 2 * e ! 3 - e ! 0 * e ! 5) * invDet,
                 (e ! 3 * e ! 7 - e ! 4 * e ! 6) * invDet,
                 (e ! 1 * e ! 6 - e ! 0 * e ! 7) * invDet,
                 (e ! 0 * e ! 4 - e ! 1 * e ! 3) * invDet]))"

text \<open>\<open>normalizeAngle\<close>: the two \<open>while\<close> loops, each ending after finitely many steps.\<close>

function normalizeAngle_down :: "real \<Rightarrow> real" where
  "normalizeAngle_down a = (if a > pi then normalizeAngle_down (a - 2 * pi) else a)"
  by pat_completeness auto
termination
proof (relation "measure (\<lambda>a. nat \<lceil>(a - pi) / (2 * pi)\<rceil>)")
  show "wf (measure (\<lambda>a. nat \<lceil>(a - pi) / (2 * pi)\<rceil>))" by simp
next
  fix a :: real
  assume gt: "pi < a"
  have eq: "(a - 2 * pi - pi) / (2 * pi) = (a - pi) / (2 * pi) - 1"
    by (simp add: field_simps)
  have pos: "0 < (a - pi) / (2 * pi)" using gt by simp
  then have "1 \<le> \<lceil>(a - pi) / (2 * pi)\<rceil>" by linarith
  moreover have "\<lceil>(a - 2 * pi - pi) / (2 * pi)\<rceil> = \<lceil>(a - pi) / (2 * pi)\<rceil> - 1"
    unfolding eq by linarith
  ultimately show "(a - 2 * pi, a) \<in> measure (\<lambda>a. nat \<lceil>(a - pi) / (2 * pi)\<rceil>)"
    by simp
qed

function normalizeAngle_up :: "real \<Rightarrow> real" where
  "normalizeAngle_up a = (if a < - pi then normalizeAngle_up (a + 2 * pi) else a)"
  by pat_completeness auto
termination
proof (relation "measure (\<lambda>a. nat \<lceil>(- pi - a) / (2 * pi)\<rceil>)")
  show "wf (measure (\<lambda>a. nat \<lceil>(- pi - a) / (2 * pi)\<rceil>))" by simp
next
  fix a :: real
  assume lt: "a < - pi"
  have eq: "(- pi - (a + 2 * pi)) / (2 * pi) = (- pi - a) / (2 * pi) - 1"
    by (simp add: field_simps)
  have pos: "0 < (- pi - a) / (2 * pi)" using lt by simp
  then have "1 \<le> \<lceil>(- pi - a) / (2 * pi)\<rceil>" by linarith
  moreover have "\<lceil>(- pi - (a + 2 * pi)) / (2 * pi)\<rceil> = \<lceil>(- pi - a) / (2 * pi)\<rceil> - 1"
    unfolding eq by linarith
  ultimately show "(a + 2 * pi, a) \<in> measure (\<lambda>a. nat \<lceil>(- pi - a) / (2 * pi)\<rceil>)"
    by simp
qed

definition MathUtils_normalizeAngle :: "real \<Rightarrow> real" where
  "MathUtils_normalizeAngle a = normalizeAngle_up (normalizeAngle_down a)"

section \<open>advanced-ik-solver.js: utility functions\<close>

definition d2r :: "real \<Rightarrow> real" where
  "d2r d = d * pi / 180"

definition r2d :: "real \<Rightarrow> real" where
  "r2d r = r * 180 / pi"

definition normA :: "real \<Rightarrow> real" where
  "normA a = js_rem (js_rem a 360 + 540) 360 - 180"

definition clamp :: "real \<Rightarrow> real \<Rightarrow> real \<Rightarrow> real" where
  "clamp v lo hi = max lo (min hi v)"

subsection \<open>Results that may be an error\<close>

definition bindE :: "error + 'a \<Rightarrow> ('a \<Rightarrow> error + 'b) \<Rightarrow> error + 'b" where
  "bindE r f = (case r of Inl e \<Rightarrow> Inl e | Inr v \<Rightarrow> f v)"

fun foldE :: "('a \<Rightarrow> 's \<Rightarrow> error + 's) \<Rightarrow> 'a list \<Rightarrow> 's \<Rightarrow> error + 's" where
  "foldE f [] s = Inr s"
| "foldE f (a # as) s = (case f a s of Inl e \<Rightarrow> Inl e | Inr s' \<Rightarrow> foldE f as s')"

fun mapE :: "('a \<Rightarrow> error + 'b) \<Rightarrow> 'a list \<Rightarrow> error + 'b list" where
  "mapE f [] = Inr []"
| "mapE f (a # as) =
     (case f a of
        Inl e \<Rightarrow> Inl e
      | Inr b \<Rightarrow> (case mapE f as of Inl e \<Rightarrow> Inl e | Inr bs \<Rightarrow> Inr (b # bs)))"

text \<open>\<open>v || d\<close> on an optional number: \<open>undefined\<close> and \<open>0\<close> are falsy.\<close>

definition js_or :: "real option \<Rightarrow> real \<Rightarrow> real" where
  "js_or v d = (case v of None \<Rightarrow> d | Some r \<Rightarrow> if r = 0 then d else r)"

subsection \<open>Reading a property of a plain object\<close>

text \<open>
  The tables of the skeleton and the rotation maps are plain objects, and \<open>obj[key]\<close> also
  finds what every plain object inherits from \<open>Object.prototype\<close>.  An object is modelled by
  the map of its own properties.  A read yields an own value, an inherited member (a function,
  or the prototype object for \<open>__proto__\<close>: truthy, not a number, and without any of the
  fields \<open>joints\<close>, \<open>parent\<close>, \<open>pivot\<close>, \<open>min\<close>, \<open>max\<close>), or \<open>undefined\<close>.
\<close>

datatype 'a property = Own 'a | Inherited | Undefined

definition Object_prototype :: "string list" where
  "Object_prototype =
     [''constructor'', ''__defineGetter__'', ''__defineSetter__'', ''hasOwnProperty'',
      ''__lookupGetter__'', ''__lookupSetter__'', ''isPrototypeOf'', ''propertyIsEnumerable'',
      ''toString'', ''valueOf'', ''__proto__'', ''toLocaleString'']"

definition js_get :: "(string \<rightharpoonup> 'a) \<Rightarrow> string \<Rightarrow> 'a property" where
  "js_get obj key =
     (case obj key of
        Some v \<Rightarrow> Own v
      | None \<Rightarrow> if key \<in> set Object_prototype then Inherited else Undefined)"

text \<open>
  \<open>rotations[j] || 0\<close>, used as a number: an own rotation (\<open>0\<close> for \<open>0\<close>), \<open>0\<close> for
  \<open>undefined\<close>; an inherited member is truthy and turns the sum it is added to into \<open>NaN\<close>.
\<close>

definition js_rotation :: "(string \<rightharpoonup> real) \<Rightarrow> string \<Rightarrow> error + real" where
  "js_rotation rotations j =
     (case js_get rotations j of
        Own r \<Rightarrow> Inr r
      | Undefined \<Rightarrow> Inr 0
      | Inherited \<Rightarrow> Inl NotANumber)"

text \<open>
  The rotation maps are objects that the caller and the solver share by reference: the
  objects allocated so far are a list, and a reference is an index into it.
\<close>

type_synonym rots = "string \<rightharpoonup> real"

subsection \<open>skeleton-data.js: the data the solver is constructed with\<close>

text \<open>
  Of a joint definition the solver reads \<open>parent\<close> and \<open>pivot\<close>, of a chain definition
  \<open>joints\<close>, \<open>stretchRatio\<close> and \<open>curveStrength\<close>, of a limit \<open>min\<close> and \<open>max\<close>.
\<close>

record JointDef =
  def_parent :: "string option"
  pivot :: "real \<times> real"

record JointLimit =
  lim_min :: real
  lim_max :: real

record ChainDef =
  joints :: "string list"
  stretchRatio :: "real option"
  curveStrength :: "real option"

record SkeletonData =
  JOINT_DEFS :: "string \<rightharpoonup> JointDef"
  IK_CHAINS :: "string \<rightharpoonup> ChainDef"
  JOINT_LIMITS :: "string \<rightharpoonup> JointLimit"

definition BITRUVIUS_DATA :: SkeletonData where
  "BITRUVIUS_DATA = \<lparr>
     JOINT_DEFS = map_of
       [(''root'', \<lparr>def_parent = None, pivot = (0, 0)\<rparr>),
        (''torso'', \<lparr>def_parent = Some ''root'', pivot = (0, - 58)\<rparr>),
        (''waist'', \<lparr>def_parent = Some ''torso'', pivot = (0, 58)\<rparr>),
        (''neck'', \<lparr>def_parent = Some ''torso'', pivot = (0, - 58)\<rparr>),
        (''head'', \<lparr>def_parent = Some ''neck'', pivot = (0, - 24)\<rparr>),
        (''nose'', \<lparr>def_parent = Some ''head'', pivot = (0, - 8)\<rparr>),
        (''l_collar'', \<lparr>def_parent = Some ''torso'', pivot = (- 32, - 13)\<rparr>),
        (''r_collar'', \<lparr>def_parent = Some ''torso'', pivot = (32, - 13)\<rparr>),
        (''l_shoulder'', \<lparr>def_parent = Some ''l_collar'', pivot = (- 22, 0)\<rparr>),
        (''r_shoulder'', \<lparr>def_parent = Some ''r_collar'', pivot = (22, 0)\<rparr>),
        (''l_elbow'', \<lparr>def_parent = Some ''l_shoulder'', pivot = (- 30, 0)\<rparr>),
        (''r_elbow'', \<lparr>def_parent = Some ''r_shoulder'', pivot = (30, 0)\<rparr>),
        (''l_wrist'', \<lparr>def_parent = Some ''l_elbow'', pivot = (- 25, 0)\<rparr>),
        (''r_wrist'', \<lparr>def_parent = Some ''r_elbow'', pivot = (25, 0)\<rparr>),
        (''l_hip'', \<lparr>def_parent = Some ''waist'', pivot = (- 20, 0)\<rparr>),
        (''r_hip'', \<lparr>def_parent = Some ''waist'', pivot = (20, 0)\<rparr>),
        (''l_knee'', \<lparr>def_parent = Some ''l_hip'', pivot = (0, 40)\<rparr>),
        (''r_knee'', \<lparr>def_parent = Some ''r_hip'', pivot = (0, 40)\<rparr>),
        (''l_ankle'', \<lparr>def_parent = Some ''l_knee'', pivot = (0, 35)\<rparr>),
        (''r_ankle'', \<lparr>def_parent = Some ''r_knee'', pivot = (0, 35)\<rparr>),
        (''l_toe'', \<lparr>def_parent = Some ''l_ankle'', pivot = (0, 12)\<rparr>),
        (''r_toe'', \<lparr>def_parent = Some ''r_ankle'', pivot = (0, 12)\<rparr>)],
     IK_CHAINS = map_of
       [(''l_arm_chain'', \<lparr>joints = [''l_shoulder'', ''l_elbow'', ''l_wrist''],
           stretchRatio = Some 1.1, curveStrength = Some 0.5\<rparr>),
        (''r_arm_chain'', \<lparr>joints = [''r_shoulder'', ''r_elbow'', ''r_wrist''],
           stretchRatio = Some 1.1, curveStrength = Some 0.5\<rparr>),
        (''l_leg_chain'', \<lparr>joints = [''l_hip'', ''l_knee'', ''l_ankle''],
           stretchRatio = Some 1.05, curveStrength = Some 0.3\<rparr>),
        (''r_leg_chain'', \<lparr>joints = [''r_hip'', ''r_knee'', ''r_ankle''],
           stretchRatio = Some 1.05, curveStrength = Some 0.3\<rparr>)],
     JOINT_LIMITS = map_of
       [(''neck'', \<lparr>lim_min = - 45, lim_max = 45\<rparr>),
        (''head'', \<lparr>lim_min = - 30, lim_max = 30\<rparr>),
        (''l_shoulder'', \<lparr>lim_min = - 180, lim_max = 180\<rparr>),
        (''r_shoulder'', \<lparr>lim_min = - 180, lim_max = 180\<rparr>),
        (''l_elbow'', \<lparr>lim_min = 0, lim_max = 150\<rparr>),
        (''r_elbow'', \<lparr>lim_min = 0, lim_max = 150\<rparr>),
        (''l_wrist'', \<lparr>lim_min = - 90, lim_max = 90\<rparr>),
        (''r_wrist'', \<lparr>lim_min = - 90, lim_max = 90\<rparr>),
        (''l_hip'', \<lparr>lim_min = - 30, lim_max = 30\<rparr>),
        (''r_hip'', \<lparr>lim_min = - 30, lim_max = 30\<rparr>),
        (''l_knee'', \<lparr>lim_min = 0, lim_max = 150\<rparr>),
        (''r_knee'', \<lparr>lim_min = 0, lim_max = 150\<rparr>),
        (''l_ankle'', \<lparr>lim_min = - 45, lim_max = 45\<rparr>),
        (''r_ankle'', \<lparr>lim_min = - 45, lim_max = 45\<rparr>)]\<rparr>"

text \<open>
  \<open>JOINT_DEFS[jointId].pivot\<close> with its two entries read, and \<open>JOINT_DEFS[jointId].parent\<close>.  Reading
  \<open>pivot\<close> or \<open>parent\<close> of \<open>undefined\<close> throws; an inherited member has neither field, so
  its \<open>parent\<close> is \<open>undefined\<close> and reading an entry of its \<open>pivot\<close> throws.
\<close>

definition jointPivot :: "SkeletonData \<Rightarrow> string \<Rightarrow> error + real \<times> real" where
  "jointPivot data jointId =
     (case js_get (JOINT_DEFS data) jointId of
        Own jDef \<Rightarrow> Inr (pivot jDef)
      | Inherited \<Rightarrow> Inl TypeError
      | Undefined \<Rightarrow> Inl TypeError)"

definition jointParent :: "SkeletonData \<Rightarrow> string \<Rightarrow> error + string option" where
  "jointParent data jointId =
     (case js_get (JOINT_DEFS data) jointId of
        Own jDef \<Rightarrow> Inr (def_parent jDef)
      | Inherited \<Rightarrow> Inr None
      | Undefined \<Rightarrow> Inl TypeError)"

subsection \<open>AdvancedIKSolver.computeWorld\<close>

text \<open>
  The first loop walks the \<open>parent\<close> links while \<open>cur\<close> is truthy (neither missing nor the
  empty string) and puts each id in front of \<open>path\<close>.  On data whose parent links form a
  cycle it never ends: the value is then \<open>None\<close>.
\<close>

partial_function (option) ancestorPath ::
  "SkeletonData \<Rightarrow> string option \<Rightarrow> string list \<Rightarrow> string list option" where
  "ancestorPath data cur path =
     (case cur of
        None \<Rightarrow> Some path
      | Some c \<Rightarrow>
          if c = [] then Some path
          else ancestorPath data
                 (case js_get (JOINT_DEFS data) c of
                    Own jDef \<Rightarrow> def_parent jDef
                  | Inherited \<Rightarrow> None
                  | Undefined \<Rightarrow> None)
                 (c # path))"

record World = Vector2 +
  angle_w :: real
  parentAngle :: real

text \<open>The body of the second loop, on the running \<open>(wx, wy, wa, pa)\<close>.\<close>

definition computeWorld_step ::
  "SkeletonData \<Rightarrow> (string \<rightharpoonup> real) \<Rightarrow> string \<Rightarrow> real \<times> real \<times> real \<times> real
     \<Rightarrow> error + real \<times> real \<times> real \<times> real" where
  "computeWorld_step data rotations j = (\<lambda>(wx, wy, wa, pa).
     if j = ''root'' then Inr (wx, wy, wa, pa)
     else bindE (jointPivot data j) (\<lambda>p.
            let px = fst p; py = snd p;
                c = cos wa; s = sin wa
            in bindE (js_rotation rotations j) (\<lambda>r.
                 Inr (wx + (px * c - py * s), wy + (px * s + py * c), wa + d2r r, wa))))"

definition computeWorld ::
  "SkeletonData \<Rightarrow> string \<Rightarrow> (string \<rightharpoonup> real) \<Rightarrow> real \<times> real \<Rightarrow> error + World" where
  "computeWorld data jointId rotations canvasCenter =
     (case ancestorPath data (Some jointId) [] of
        None \<Rightarrow> Inl NoReturn
      | Some path \<Rightarrow>
          (case foldE (computeWorld_step data rotations) path
                  (fst canvasCenter, snd canvasCenter, 0, 0) of
             Inl e \<Rightarrow> Inl e
           | Inr (wx, wy, wa, pa) \<Rightarrow>
               Inr \<lparr>x = wx, y = wy, angle_w = normA (r2d wa), parentAngle = normA (r2d pa)\<rparr>))"

subsection \<open>AdvancedIKSolver.solveIK_Advanced\<close>

text \<open>Step 1: the chain points and the segment lengths.\<close>

definition buildChainPoints ::
  "SkeletonData \<Rightarrow> string list \<Rightarrow> (string \<rightharpoonup> real) \<Rightarrow> real \<times> real \<Rightarrow> error + Vector2 list" where
  "buildChainPoints data jointIds currentRots center =
     mapE (\<lambda>id. bindE (computeWorld data id currentRots center)
                  (\<lambda>world. Inr \<lparr>x = x world, y = y world\<rparr>)) jointIds"

definition buildChainLengths :: "SkeletonData \<Rightarrow> string list \<Rightarrow> error + real list" where
  "buildChainLengths data jointIds =
     mapE (\<lambda>i. bindE (jointPivot data (jointIds ! (i + 1)))
                 (\<lambda>pivot. Inr (hypot (fst pivot) (snd pivot))))
          [0..<length jointIds - 1]"

definition totalLength :: "real list \<Rightarrow> real" where
  "totalLength chainLengths = fold (\<lambda>len sum. sum + len) chainLengths 0"

text \<open>
  Reachability with stretch support and soft reach damping: the target the rest of the solve
  uses.  (Where \<open>softDist\<close> is 0 the source computes \<open>exp(-Infinity) = 0\<close> and the model
  \<open>exp 0 = 1\<close>; both are then multiplied by \<open>softDist = 0\<close>.)
\<close>

definition softReachTarget :: "ChainDef \<Rightarrow> real \<Rightarrow> Vector2 \<Rightarrow> Vector2 \<Rightarrow> Vector2" where
  "softReachTarget chainDef totalChainLength base target =
     (let distToTarget = hypot (x target - x base) (y target - y base);
          stretchLimit = totalChainLength * js_or (stretchRatio chainDef) 1.1;
          softDist = totalChainLength * 0.12;
          softThreshold = stretchLimit - softDist
      in if distToTarget > softThreshold then
           let overflow = distToTarget - softThreshold;
               dampedOverflow = softDist * (1 - exp (- overflow / softDist));
               newDist = softThreshold + dampedOverflow;
               ratio = newDist / distToTarget
           in \<lparr>x = x base + (x target - x base) * ratio,
               y = y base + (y target - y base) * ratio\<rparr>
         else target)"

text \<open>Natural bias for limbs: the second point of an arm or leg chain is moved before iterating.\<close>

definition naturalBias ::
  "string \<Rightarrow> ChainDef \<Rightarrow> nat \<Rightarrow> real list \<Rightarrow> Vector2 \<Rightarrow> Vector2 list \<Rightarrow> Vector2 list" where
  "naturalBias chainId chainDef numPoints chainLengths target chainPoints =
     (if numPoints \<ge> 3 then
        let isLeg = sublist ''leg'' chainId;
            isArm = sublist ''arm'' chainId
        in if isLeg \<or> isArm then
             let isRight = (sublist ''r_'' chainId \<or> sublist ''_r'' chainId);
                 bendDirection = (if isRight then 1 else - 1);
                 curveFactor = js_or (curveStrength chainDef) 0.5;
                 shoulderX = x (chainPoints ! 0);
                 shoulderY = y (chainPoints ! 0);
                 targetVecX = x target - shoulderX;
                 targetVecY = y target - shoulderY;
                 targetDist = hypot targetVecX targetVecY
             in if targetDist > 0.1 then
                  let initialBendAngle = d2r (bendDirection * curveFactor * 20);
                      rotatedTargetVecX =
                        targetVecX * cos initialBendAngle - targetVecY * sin initialBendAngle;
                      rotatedTargetVecY =
                        targetVecX * sin initialBendAngle + targetVecY * cos initialBendAngle;
                      elbowTargetX = shoulderX + (rotatedTargetVecX / targetDist) * chainLengths ! 0;
                      elbowTargetY = shoulderY + (rotatedTargetVecY / targetDist) * chainLengths ! 0
                  in chainPoints[1 := \<lparr>x = elbowTargetX, y = elbowTargetY\<rparr>]
                else chainPoints
           else chainPoints
      else chainPoints)"

text \<open>
  The state of the iteration.  \<open>bestDist = None\<close> stands for \<open>Infinity\<close>.  \<open>randomCalls\<close>
  counts the calls of \<open>Math.random()\<close> made so far; the \<open>n\<close>-th call returns \<open>random n\<close>
  of a sequence \<open>random\<close> that the model takes as an argument.  \<open>evaluated\<close> is a history
  variable that the source does not have: the point configurations whose effector distance
  the loop has computed, latest first.
\<close>

record SolveState =
  chainPoints :: "Vector2 list"
  bestDist :: "real option"
  bestPoints :: "Vector2 list"
  randomCalls :: nat
  evaluated :: "Vector2 list list"

definition effectorDist :: "nat \<Rightarrow> Vector2 \<Rightarrow> Vector2 list \<Rightarrow> real" where
  "effectorDist numPoints target pts =
     (let effectorPos = pts ! (numPoints - 1)
      in hypot (x effectorPos - x target) (y effectorPos - y target))"

text \<open>The random nudge of the interior point \<open>i\<close>.\<close>

definition perturbStep :: "(nat \<Rightarrow> real) \<Rightarrow> real \<Rightarrow> nat \<Rightarrow> nat \<times> Vector2 list \<Rightarrow> nat \<times> Vector2 list" where
  "perturbStep random temp i = (\<lambda>(n, pts).
     (n + 2, pts[i := \<lparr>x = x (pts ! i) + (random n - 0.5) * temp,
                       y = y (pts ! i) + (random (n + 1) - 0.5) * temp\<rparr>]))"

text \<open>Backward pass, the step at index \<open>i\<close>.\<close>

definition backwardStep :: "real list \<Rightarrow> nat \<Rightarrow> Vector2 list \<Rightarrow> Vector2 list" where
  "backwardStep chainLengths i pts =
     (let next = pts ! (i + 1);
          curr = pts ! i;
          dist = hypot (x curr - x next) (y curr - y next)
      in if dist > 0.0001 then
           let ratio = chainLengths ! i / dist
           in pts[i := \<lparr>x = x next + (x curr - x next) * ratio,
                        y = y next + (y curr - y next) * ratio\<rparr>]
         else pts)"

text \<open>The parent angle used by the limit projection of the forward pass.\<close>

definition iterParentAngle ::
  "SkeletonData \<Rightarrow> (string \<rightharpoonup> real) \<Rightarrow> real \<times> real \<Rightarrow> string option \<Rightarrow> nat \<Rightarrow> Vector2 list
     \<Rightarrow> error + real" where
  "iterParentAngle data currentRots center pId i pts =
     (if i = 0 \<and> (case pId of None \<Rightarrow> False | Some p \<Rightarrow> p \<noteq> []) then
        (case pId of
           None \<Rightarrow> Inr 0
         | Some p \<Rightarrow> bindE (computeWorld data p currentRots center) (\<lambda>w. Inr (angle_w w)))
      else if i > 0 then
        Inr (r2d (atan2 (y (pts ! i) - y (pts ! (i - 1))) (x (pts ! i) - x (pts ! (i - 1)))))
      else Inr 0)"

text \<open>
  Forward pass, the step at index \<open>i\<close>, with the joint limits applied.  When \<open>lim\<close> is an
  inherited member it is truthy, the parent angle is computed, and both comparisons with its
  missing \<open>min\<close> and \<open>max\<close> are false.
\<close>

definition forwardStep ::
  "SkeletonData \<Rightarrow> string list \<Rightarrow> real list \<Rightarrow> (string \<rightharpoonup> real) \<Rightarrow> real \<times> real \<Rightarrow> nat
     \<Rightarrow> Vector2 list \<Rightarrow> error + Vector2 list" where
  "forwardStep data jointIds chainLengths currentRots center i pts =
     (let curr = pts ! i;
          next = pts ! (i + 1);
          dist = hypot (x next - x curr) (y next - y curr)
      in if dist > 0.0001 then
           let ratio = chainLengths ! i / dist;
               nextX = x curr + (x next - x curr) * ratio;
               nextY = y curr + (y next - y curr) * ratio;
               jointId = jointIds ! i
           in (case js_get (JOINT_LIMITS data) jointId of
                 Undefined \<Rightarrow> Inr (pts[i + 1 := \<lparr>x = nextX, y = nextY\<rparr>])
               | Inherited \<Rightarrow>
                   bindE (jointParent data jointId) (\<lambda>pId.
                   bindE (iterParentAngle data currentRots center pId i pts) (\<lambda>pAngle.
                     Inr (pts[i + 1 := \<lparr>x = nextX, y = nextY\<rparr>])))
               | Own limits \<Rightarrow>
                   bindE (jointParent data jointId) (\<lambda>pId.
                   bindE (iterParentAngle data currentRots center pId i pts) (\<lambda>pAngle.
                     let angle = r2d (atan2 (nextY - y curr) (nextX - x curr));
                         local = normA (angle - pAngle)
                     in if local < lim_min limits \<or> local > lim_max limits then
                          let local' = clamp local (lim_min limits) (lim_max limits);
                              clampedGlobal = d2r (pAngle + local')
                          in Inr (pts[i + 1 :=
                               \<lparr>x = x curr + cos clampedGlobal * chainLengths ! i,
                                y = y curr + sin clampedGlobal * chainLengths ! i\<rparr>])
                        else Inr (pts[i + 1 := \<lparr>x = nextX, y = nextY\<rparr>]))))
         else Inr pts)"

text \<open>
  What one iteration does after the distance check: the optional perturbation, the backward
  pass from the target and the forward pass from the base.
\<close>

definition solvePasses ::
  "SkeletonData \<Rightarrow> (nat \<Rightarrow> real) \<Rightarrow> string list \<Rightarrow> real list \<Rightarrow> (string \<rightharpoonup> real) \<Rightarrow> real \<times> real
     \<Rightarrow> nat \<Rightarrow> Vector2 \<Rightarrow> Vector2 \<Rightarrow> nat \<Rightarrow> real \<Rightarrow> SolveState \<Rightarrow> error + SolveState" where
  "solvePasses data random jointIds chainLengths currentRots center numPoints target
       initialBasePos iter currentDist st =
     (let tolerance = 0.01;
          (n, pts1) =
            (if iter > 10 \<and> iter mod 5 = 0 \<and> currentDist > tolerance * 5 then
               let temp = 3.0 * (1 - real iter / 50)
               in fold (perturbStep random temp) [1..<numPoints - 1] (randomCalls st, chainPoints st)
             else (randomCalls st, chainPoints st));
          pts2 = fold (backwardStep chainLengths) (rev [0..<numPoints - 1])
                   (pts1[numPoints - 1 := target])
      in bindE (foldE (forwardStep data jointIds chainLengths currentRots center)
                  [0..<numPoints - 1] (pts2[0 := initialBasePos]))
           (\<lambda>pts3. Inr (st\<lparr>chainPoints := pts3, randomCalls := n\<rparr>)))"

text \<open>
  The loop \<open>for (iter = 0; iter < iterations; iter++)\<close> with \<open>iterations = 50\<close>: the first
  argument is the number of iterations still to run, the second is \<open>iter\<close>.
\<close>

fun solveLoop ::
  "nat \<Rightarrow> nat \<Rightarrow> SkeletonData \<Rightarrow> (nat \<Rightarrow> real) \<Rightarrow> string list \<Rightarrow> real list \<Rightarrow> (string \<rightharpoonup> real)
     \<Rightarrow> real \<times> real \<Rightarrow> nat \<Rightarrow> Vector2 \<Rightarrow> Vector2 \<Rightarrow> SolveState \<Rightarrow> error + SolveState" where
  "solveLoop 0 iter data random jointIds chainLengths currentRots center numPoints target
       initialBasePos st = Inr st"
| "solveLoop (Suc k) iter data random jointIds chainLengths currentRots center numPoints target
       initialBasePos st =
     (let currentDist = effectorDist numPoints target (chainPoints st);
          st1 = st\<lparr>evaluated := chainPoints st # evaluated st\<rparr>;
          st2 = (if (case bestDist st1 of None \<Rightarrow> True | Some b \<Rightarrow> currentDist < b)
                 then st1\<lparr>bestDist := Some currentDist, bestPoints := chainPoints st1\<rparr>
                 else st1)
      in if currentDist < 0.01 then Inr st2
         else bindE (solvePasses data random jointIds chainLengths currentRots center numPoints
                       target initialBasePos iter currentDist st2)
                (solveLoop k (iter + 1) data random jointIds chainLengths currentRots center
                   numPoints target initialBasePos))"

text \<open>
  Converting the final chain points back to local rotations: the step for index \<open>i\<close>.  It
  reads the object \<open>currentRots\<close> and writes the object \<open>finalRots\<close>.  A limit that is an
  inherited member is truthy, and clamping to its missing \<open>min\<close> and \<open>max\<close> gives \<open>NaN\<close>.
\<close>

definition extractStep ::
  "SkeletonData \<Rightarrow> string list \<Rightarrow> nat \<Rightarrow> real \<times> real \<Rightarrow> Vector2 list \<Rightarrow> nat \<Rightarrow> nat
     \<Rightarrow> rots list \<Rightarrow> error + rots list" where
  "extractStep data jointIds currentRots center finalPoints finalRots i objs =
     (let jointId = jointIds ! i
      in bindE (jointParent data jointId) (\<lambda>pId.
         bindE
           (if i = 0 then
              (case pId of
                 None \<Rightarrow> Inr 0
               | Some p \<Rightarrow>
                   if p \<noteq> [] \<and> p \<noteq> ''root'' then
                     bindE (computeWorld data p (objs ! currentRots) center)
                       (\<lambda>w. Inr (angle_w w))
                   else Inr 0)
            else
              Inr (r2d (atan2 (y (finalPoints ! i) - y (finalPoints ! (i - 1)))
                              (x (finalPoints ! i) - x (finalPoints ! (i - 1))))))
           (\<lambda>parentGlobalAngle.
              let boneGlobalAngle =
                    r2d (atan2 (y (finalPoints ! (i + 1)) - y (finalPoints ! i))
                               (x (finalPoints ! (i + 1)) - x (finalPoints ! i)));
                  localAngle = normA (boneGlobalAngle - parentGlobalAngle)
              in bindE
                   (case js_get (JOINT_LIMITS data) jointId of
                      Undefined \<Rightarrow> Inr localAngle
                    | Inherited \<Rightarrow> Inl NotANumber
                    | Own limits \<Rightarrow> Inr (clamp localAngle (lim_min limits) (lim_max limits)))
                   (\<lambda>localAngle'.
                      Inr (objs[finalRots := (objs ! finalRots)(jointId \<mapsto> localAngle')])))))"

text \<open>
  The state the loop ends in, for a chain of at least two joints: the chain is built, the
  target damped, the bias applied and the loop run.
\<close>

definition solveBest ::
  "SkeletonData \<Rightarrow> (nat \<Rightarrow> real) \<Rightarrow> string \<Rightarrow> ChainDef \<Rightarrow> real \<Rightarrow> real \<Rightarrow> (string \<rightharpoonup> real)
     \<Rightarrow> real \<times> real \<Rightarrow> error + SolveState" where
  "solveBest data random chainId chainDef targetX targetY currentRots center =
     (let jointIds = joints chainDef
      in bindE (buildChainPoints data jointIds currentRots center) (\<lambda>chainPoints0.
         bindE (buildChainLengths data jointIds) (\<lambda>chainLengths.
           let numPoints = length chainPoints0;
               totalChainLength = totalLength chainLengths;
               target = softReachTarget chainDef totalChainLength (chainPoints0 ! 0)
                          \<lparr>x = targetX, y = targetY\<rparr>;
               initialBasePos = chainPoints0 ! 0;
               biased = naturalBias chainId chainDef numPoints chainLengths target chainPoints0
           in solveLoop 50 0 data random jointIds chainLengths currentRots center numPoints
                target initialBasePos
                \<lparr>chainPoints = biased, bestDist = None, bestPoints = biased,
                 randomCalls = 0, evaluated = []\<rparr>)))"

text \<open>
  The solve itself.  \<open>currentRots\<close> is a reference to the caller's rotation map among the
  objects \<open>objs\<close>; the result is the reference returned and the objects as they are then.
  The two early returns hand back \<open>currentRots\<close> itself.  \<open>{ ...currentRots }\<close> allocates a
  new object with the own properties of the map.  When \<open>IK_CHAINS[chainId]\<close> is an inherited
  member, \<open>chainDef\<close> is truthy, \<open>chainDef.joints\<close> is \<open>undefined\<close> and reading its
  \<open>length\<close> throws.
\<close>

definition solveIK_Advanced ::
  "SkeletonData \<Rightarrow> (nat \<Rightarrow> real) \<Rightarrow> string \<Rightarrow> real \<Rightarrow> real \<Rightarrow> nat \<Rightarrow> real \<times> real \<Rightarrow> rots list
     \<Rightarrow> error + nat \<times> rots list" where
  "solveIK_Advanced data random chainId targetX targetY currentRots center objs =
     (case js_get (IK_CHAINS data) chainId of
        Undefined \<Rightarrow> Inr (currentRots, objs)
      | Inherited \<Rightarrow> Inl TypeError
      | Own chainDef \<Rightarrow>
          let jointIds = joints chainDef
          in if length jointIds < 2 then Inr (currentRots, objs)
             else bindE (solveBest data random chainId chainDef targetX targetY
                           (objs ! currentRots) center)
                    (\<lambda>st. let finalPoints = bestPoints st;
                              finalRots = length objs
                          in bindE (foldE (extractStep data jointIds currentRots center
                                             finalPoints finalRots)
                                      [0..<length jointIds - 1] (objs @ [objs ! currentRots]))
                               (\<lambda>objs'. Inr (finalRots, objs'))))"

text \<open>A sequence for \<open>Math.random()\<close> in which every call returns 0.\<close>

definition zeroRandom :: "nat \<Rightarrow> real" where
  "zeroRandom n = 0"

subsection \<open>Two small skeletons\<close>


text \<open>
  A hub limited to \<open>[0, 45]\<close> degrees with one segment of length 10, and a chain that
  lists the hub a second time, as its effector.
\<close>

definition ringData :: SkeletonData where
  "ringData = \<lparr>
     JOINT_DEFS = map_of
       [(''hub'', \<lparr>def_parent = None, pivot = (0, 0)\<rparr>),
        (''rim'', \<lparr>def_parent = Some ''hub'', pivot = (10, 0)\<rparr>)],
     IK_CHAINS = map_of
       [(''ring'', \<lparr>joints = [''hub'', ''rim'', ''hub''], stretchRatio = None,
           curveStrength = None\<rparr>)],
     JOINT_LIMITS = map_of [(''hub'', \<lparr>lim_min = 0, lim_max = 45\<rparr>)]\<rparr>"
section \<open>joint.js: Joint and JointChain\<close>

text \<open>
  Joints are objects that refer to each other (\<open>children\<close>, \<open>parent\<close>), so the model has a
  heap: a joint is named by a reference (written as a string) and the heap gives the object
  behind each reference.  Of the fields of a joint the model keeps those the modelled methods read.
  Recursion over \<open>children\<close> takes the depth of the call stack as its first argument and
  ends with a \<open>RangeError\<close> when it is used up, as it is on a cyclic structure.
\<close>

type_synonym ref = string

record Constraints =
  enabled :: bool
  minAngle :: real
  maxAngle :: real

record Joint =
  position :: Vector2
  length_j :: real
  angle :: real
  targetAngle :: real
  fkEnabled :: bool
  angleWrapping :: bool
  rotationSpeed :: real
  ikEnabled :: bool
  ikWeight :: real
  damping :: real
  constraints :: Constraints
  localTransform :: Matrix3
  worldTransform :: Matrix3
  children :: "ref list"
  parent :: "ref option"

type_synonym heap = "ref \<Rightarrow> Joint"

text \<open>The constructor \<open>new Joint(position, length)\<close>.\<close>

definition new_Joint :: "Vector2 \<Rightarrow> real \<Rightarrow> Joint" where
  "new_Joint pos len =
     \<lparr>position = pos, length_j = len, angle = 0, targetAngle = 0,
      fkEnabled = True, angleWrapping = True, rotationSpeed = 0.1,
      ikEnabled = True, ikWeight = 1.0, damping = 0.1,
      constraints = \<lparr>enabled = False, minAngle = - pi * 0.75, maxAngle = pi * 0.75\<rparr>,
      localTransform = Matrix3_identity, worldTransform = Matrix3_identity,
      children = [], parent = None\<rparr>"

definition Joint_addChild :: "ref \<Rightarrow> ref \<Rightarrow> heap \<Rightarrow> heap" where
  "Joint_addChild this child h =
     (if child \<noteq> this then
        let h1 = h(this := (h this)\<lparr>children := children (h this) @ [child]\<rparr>)
        in h1(child := (h1 child)\<lparr>parent := Some this\<rparr>)
      else h)"

definition Joint_removeChild :: "ref \<Rightarrow> ref \<Rightarrow> heap \<Rightarrow> heap" where
  "Joint_removeChild this child h =
     (if child \<in> set (children (h this)) then
        let h1 = h(this := (h this)\<lparr>children := remove1 child (children (h this))\<rparr>)
        in h1(child := (h1 child)\<lparr>parent := None\<rparr>)
      else h)"

definition Joint_getWorldPosition :: "Joint \<Rightarrow> Vector2" where
  "Joint_getWorldPosition this = Matrix3_transformPoint (worldTransform this) \<lparr>x = 0, y = 0\<rparr>"

definition Joint_getEndEffectorPosition :: "Joint \<Rightarrow> Vector2" where
  "Joint_getEndEffectorPosition this =
     Matrix3_transformPoint (worldTransform this) \<lparr>x = length_j this, y = 0\<rparr>"

definition Joint_rotate :: "Joint \<Rightarrow> real \<Rightarrow> Joint" where
  "Joint_rotate this deltaAngle =
     (let t = targetAngle this + deltaAngle
      in this\<lparr>targetAngle := (if \<not> angleWrapping this then MathUtils_normalizeAngle t else t)\<rparr>)"

definition Joint_setAngle :: "Joint \<Rightarrow> real \<Rightarrow> Joint" where
  "Joint_setAngle this a =
     this\<lparr>targetAngle := (if \<not> angleWrapping this then MathUtils_normalizeAngle a else a)\<rparr>"

fun Joint_updateTransform :: "nat \<Rightarrow> heap \<Rightarrow> ref \<Rightarrow> error + heap" where
  "Joint_updateTransform 0 h this = Inl RangeError"
| "Joint_updateTransform (Suc stack) h this =
     (let local = Matrix3_multiply (Matrix3_rotation (angle (h this)))
                    (Matrix3_translation (x (position (h this))) (y (position (h this))));
          world = (case parent (h this) of
                     Some p \<Rightarrow> Matrix3_multiply (worldTransform (h p)) local
                   | None \<Rightarrow> local);
          h1 = h(this := (h this)\<lparr>localTransform := local, worldTransform := world\<rparr>)
      in foldE (\<lambda>child h'. Joint_updateTransform stack h' child) (children (h1 this)) h1)"

fun Joint_getJointCount :: "nat \<Rightarrow> heap \<Rightarrow> ref \<Rightarrow> error + nat" where
  "Joint_getJointCount 0 h this = Inl RangeError"
| "Joint_getJointCount (Suc stack) h this =
     foldE (\<lambda>child count. bindE (Joint_getJointCount stack h child) (\<lambda>k. Inr (count + k)))
       (children (h this)) 1"

subsection \<open>Joint.updateIK\<close>

text \<open>The body of the \<open>while (current)\<close> loop for one joint \<open>current\<close>.\<close>

definition Joint_updateIK_visit :: "ref \<Rightarrow> Vector2 \<Rightarrow> Vector2 \<Rightarrow> heap \<Rightarrow> ref \<Rightarrow> heap" where
  "Joint_updateIK_visit this endEffector target h current =
     (if \<not> ikEnabled (h current) then h
      else
        let jointPos = Joint_getWorldPosition (h current);
            toEnd = Vector2_subtract endEffector jointPos;
            toTarget = Vector2_subtract target jointPos
        in if Vector2_magnitude toEnd > 0 \<and> Vector2_magnitude toTarget > 0 then
             let currentAngle = Vector2_angle toEnd;
                 targetAngle' = Vector2_angle toTarget;
                 rotation = targetAngle' - currentAngle;
                 rotation1 =
                   (if enabled (constraints (h current)) then
                      let newAngle = angle (h current) + rotation;
                          constrainedAngle = MathUtils_clamp newAngle
                            (minAngle (constraints (h current)))
                            (maxAngle (constraints (h current)))
                      in constrainedAngle - angle (h current)
                    else rotation);
                 rotation2 = rotation1 * (ikWeight (h current) * ikWeight (h this));
                 h1 = h(current := (h current)\<lparr>targetAngle := angle (h current) + rotation2\<rparr>)
             in h1(current := (h1 current)\<lparr>angle :=
                     MathUtils_lerp (angle (h1 current)) (targetAngle (h1 current))
                       (1 - damping (h1 current))\<rparr>)
           else h)"

text \<open>
  The loop \<open>while (current) { ...; current = current.parent; }\<close>.  On parent links that form
  a cycle it does not end: the value is then \<open>None\<close>.
\<close>

partial_function (option) Joint_updateIK_sweep ::
  "ref \<Rightarrow> Vector2 \<Rightarrow> Vector2 \<Rightarrow> heap \<Rightarrow> ref option \<Rightarrow> heap option" where
  "Joint_updateIK_sweep this endEffector target h current =
     (case current of
        None \<Rightarrow> Some h
      | Some c \<Rightarrow>
          Joint_updateIK_sweep this endEffector target
            (Joint_updateIK_visit this endEffector target h c)
            (parent (Joint_updateIK_visit this endEffector target h c c)))"

fun Joint_updateIK_loop ::
  "nat \<Rightarrow> ref \<Rightarrow> Vector2 \<Rightarrow> Vector2 \<Rightarrow> real \<Rightarrow> heap \<Rightarrow> error + heap" where
  "Joint_updateIK_loop 0 this endEffector target threshold h = Inr h"
| "Joint_updateIK_loop (Suc k) this endEffector target threshold h =
     (case Joint_updateIK_sweep this endEffector target h (Some this) of
        None \<Rightarrow> Inl NoReturn
      | Some h1 \<Rightarrow>
          let newEndEffector = Joint_getEndEffectorPosition (h1 this);
              newDistance = Vector2_distance newEndEffector target
          in if newDistance < threshold then Inr h1
             else Joint_updateIK_loop k this endEffector target threshold h1)"

definition Joint_updateIK :: "ref \<Rightarrow> Vector2 \<Rightarrow> nat \<Rightarrow> real \<Rightarrow> heap \<Rightarrow> error + heap" where
  "Joint_updateIK this target iterations threshold h =
     (if \<not> ikEnabled (h this) \<or> parent (h this) = None then Inr h
      else
        let endEffector = Joint_getEndEffectorPosition (h this);
            distance = Vector2_distance endEffector target
        in if distance < threshold then Inr h
           else Joint_updateIK_loop iterations this endEffector target threshold h)"

subsection \<open>JointChain\<close>

text \<open>Of a chain the solvers read \<open>root\<close>, \<open>target\<close>, \<open>ikStrength\<close>, \<open>iterations\<close>, \<open>threshold\<close>.\<close>

record JointChain =
  root_joint :: ref
  target :: Vector2
  ikStrength :: real
  iterations :: nat
  threshold :: real

text \<open>\<open>getAllJointsInOrder\<close>: \<open>traverse\<close> pushes the joint, then visits its children.\<close>

fun traverse :: "nat \<Rightarrow> heap \<Rightarrow> ref \<Rightarrow> ref list \<Rightarrow> error + ref list" where
  "traverse 0 h joint js = Inl RangeError"
| "traverse (Suc stack) h joint js =
     foldE (\<lambda>child js'. traverse stack h child js') (children (h joint)) (js @ [joint])"

definition JointChain_getAllJointsInOrder :: "nat \<Rightarrow> JointChain \<Rightarrow> heap \<Rightarrow> error + ref list" where
  "JointChain_getAllJointsInOrder stack chain h = traverse stack h (root_joint chain) []"

subsection \<open>JointChain.removeJoint\<close>

text \<open>
  The callback of \<open>joint.children.forEach\<close> reads \<open>joint.parent\<close> anew for each child and
  calls \<open>addChild\<close> on it.  A result is the exception thrown, if any, and the heap at that
  moment or at the return.
\<close>

fun reattachChildren :: "ref \<Rightarrow> ref list \<Rightarrow> heap \<Rightarrow> error option \<times> heap" where
  "reattachChildren joint [] h = (None, h)"
| "reattachChildren joint (child # rest) h =
     (case parent (h joint) of
        None \<Rightarrow> (Some TypeError, h)
      | Some p \<Rightarrow> reattachChildren joint rest (Joint_addChild p child h))"

definition JointChain_removeJoint :: "JointChain \<Rightarrow> ref \<Rightarrow> heap \<Rightarrow> error option \<times> heap" where
  "JointChain_removeJoint chain joint h =
     (if joint = root_joint chain then (None, h)
      else (case parent (h joint) of
              None \<Rightarrow> (None, h)
            | Some p \<Rightarrow>
                let h1 = Joint_removeChild p joint h
                in reattachChildren joint (children (h1 joint)) h1))"

subsection \<open>JointChain.solveCCD\<close>

definition solveCCD_visit :: "JointChain \<Rightarrow> ref \<Rightarrow> ref \<Rightarrow> heap \<Rightarrow> heap" where
  "solveCCD_visit chain endEffector joint h =
     (if \<not> ikEnabled (h joint) then h
      else
        let jointPos = Joint_getWorldPosition (h joint);
            currentEnd = Joint_getEndEffectorPosition (h endEffector);
            toEnd = Vector2_subtract currentEnd jointPos;
            toTarget = Vector2_subtract (target chain) jointPos
        in if Vector2_magnitude toEnd > 0.001 \<and> Vector2_magnitude toTarget > 0.001 then
             let rotation = Vector2_angle toTarget - Vector2_angle toEnd
             in h(joint := Joint_rotate (h joint) (rotation * ikStrength chain))
           else h)"

fun solveCCD_loop :: "nat \<Rightarrow> JointChain \<Rightarrow> ref \<Rightarrow> ref list \<Rightarrow> heap \<Rightarrow> heap" where
  "solveCCD_loop 0 chain endEffector js h = h"
| "solveCCD_loop (Suc k) chain endEffector js h =
     (let h1 = fold (solveCCD_visit chain endEffector) (rev js) h;
          finalEnd = Joint_getEndEffectorPosition (h1 endEffector)
      in if Vector2_distance finalEnd (target chain) < threshold chain then h1
         else solveCCD_loop k chain endEffector js h1)"

definition JointChain_solveCCD :: "nat \<Rightarrow> JointChain \<Rightarrow> ref \<Rightarrow> heap \<Rightarrow> error + heap" where
  "JointChain_solveCCD stack chain endEffector h =
     bindE (JointChain_getAllJointsInOrder stack chain h)
       (\<lambda>js. Inr (solveCCD_loop (iterations chain) chain endEffector js h))"

subsection \<open>JointChain.solveFABRIK\<close>

definition fabrik_forward :: "real list \<Rightarrow> nat \<Rightarrow> Vector2 list \<Rightarrow> Vector2 list" where
  "fabrik_forward lengths i positions =
     (let direction = Vector2_normalize (Vector2_subtract (positions ! i) (positions ! (i + 1)))
      in positions[i := Vector2_add (positions ! (i + 1)) (Vector2_multiply direction (lengths ! i))])"

definition fabrik_backward :: "real list \<Rightarrow> nat \<Rightarrow> Vector2 list \<Rightarrow> Vector2 list" where
  "fabrik_backward lengths i positions =
     (let direction = Vector2_normalize (Vector2_subtract (positions ! i) (positions ! (i - 1)))
      in positions[i := Vector2_add (positions ! (i - 1))
                          (Vector2_multiply direction (lengths ! (i - 1)))])"

definition fabrik_setAngle :: "ref list \<Rightarrow> Vector2 list \<Rightarrow> nat \<Rightarrow> heap \<Rightarrow> heap" where
  "fabrik_setAngle js positions i h =
     (if i > 0 then
        let toCurrent = Vector2_subtract (positions ! i) (positions ! (i - 1));
            toPrevious = Vector2_subtract (positions ! (i - 1))
                           (if i > 1 then positions ! (i - 2) else positions ! (i - 1));
            a = Vector2_angle toCurrent - Vector2_angle toPrevious
        in h(js ! i := Joint_setAngle (h (js ! i)) a)
      else h)"

definition JointChain_solveFABRIK :: "nat \<Rightarrow> JointChain \<Rightarrow> ref \<Rightarrow> heap \<Rightarrow> error + heap" where
  "JointChain_solveFABRIK stack chain endEffector h =
     bindE (JointChain_getAllJointsInOrder stack chain h)
       (\<lambda>js.
          let positions0 = map (\<lambda>j. Joint_getWorldPosition (h j)) js;
              lengths = map (\<lambda>j. length_j (h j)) js;
              n = length positions0;
              positions1 = fold (fabrik_forward lengths) (rev [0..<n - 1])
                             (positions0[n - 1 := target chain]);
              positions2 = fold (fabrik_backward lengths) [1..<n]
                             (positions1[0 := Joint_getWorldPosition (h (root_joint chain))])
          in Inr (fold (fabrik_setAngle js positions2) [0..<length js] h))"

subsection \<open>JointChain.solveJacobian\<close>

definition solveJacobian_visit ::
  "nat \<Rightarrow> ref \<Rightarrow> Vector2 \<Rightarrow> Vector2 \<Rightarrow> ref \<Rightarrow> heap \<Rightarrow> error + heap" where
  "solveJacobian_visit stack endEffector currentEnd err joint h =
     (if \<not> ikEnabled (h joint) then Inr h
      else
        let epsilon = 0.01;
            originalAngle = angle (h joint);
            h1 = h(joint := (h joint)\<lparr>angle := angle (h joint) + epsilon\<rparr>)
        in bindE (Joint_updateTransform stack h1 joint)
             (\<lambda>h2.
                let perturbedEnd = Joint_getEndEffectorPosition (h2 endEffector);
                    deltaEnd = Vector2_subtract perturbedEnd currentEnd;
                    h3 = h2(joint := (h2 joint)\<lparr>angle := originalAngle\<rparr>);
                    alpha = 0.1;
                    gradient = Vector2_multiply deltaEnd
                                 (Vector2_dot err deltaEnd / (epsilon * epsilon))
                in Inr (h3(joint := Joint_rotate (h3 joint)
                          (Vector2_magnitude gradient * alpha * sgn (Vector2_cross err deltaEnd))))))"

fun solveJacobian_loop :: "nat \<Rightarrow> nat \<Rightarrow> JointChain \<Rightarrow> ref \<Rightarrow> ref list \<Rightarrow> heap \<Rightarrow> error + heap" where
  "solveJacobian_loop 0 stack chain endEffector js h = Inr h"
| "solveJacobian_loop (Suc k) stack chain endEffector js h =
     (let currentEnd = Joint_getEndEffectorPosition (h endEffector);
          err = Vector2_subtract (target chain) currentEnd
      in if Vector2_magnitude err < threshold chain then Inr h
         else bindE (foldE (solveJacobian_visit stack endEffector currentEnd err) js h)
                (solveJacobian_loop k stack chain endEffector js))"

definition JointChain_solveJacobian :: "nat \<Rightarrow> JointChain \<Rightarrow> ref \<Rightarrow> heap \<Rightarrow> error + heap" where
  "JointChain_solveJacobian stack chain endEffector h =
     bindE (JointChain_getAllJointsInOrder stack chain h)
       (\<lambda>js. solveJacobian_loop (iterations chain) stack chain endEffector js h)"

subsection \<open>JointChain.solveAnalytical\<close>

definition JointChain_solveAnalytical :: "nat \<Rightarrow> JointChain \<Rightarrow> ref \<Rightarrow> heap \<Rightarrow> error + heap" where
  "JointChain_solveAnalytical stack chain endEffector h =
     bindE (JointChain_getAllJointsInOrder stack chain h)
       (\<lambda>js.
          if length js \<noteq> 2 then Inr h
          else
            let l1 = length_j (h (js ! 0));
                l2 = length_j (h (js ! 1));
                rootPos = Joint_getWorldPosition (h (root_joint chain));
                targetDist = Vector2_distance rootPos (target chain)
            in if targetDist > l1 + l2 then
                 let a = atan2 (y (target chain) - y rootPos) (x (target chain) - x rootPos);
                     h1 = h(js ! 0 := Joint_setAngle (h (js ! 0)) a)
                 in Inr (h1(js ! 1 := Joint_setAngle (h1 (js ! 1)) 0))
               else if targetDist < \<bar>l1 - l2\<bar> then
                 let h1 = h(js ! 0 := Joint_setAngle (h (js ! 0)) 0)
                 in Inr (h1(js ! 1 := Joint_setAngle (h1 (js ! 1)) 0))
               else
                 let cosAngle2 = (targetDist * targetDist - l1 * l1 - l2 * l2) / (2 * l1 * l2);
                     angle2 = arccos (MathUtils_clamp cosAngle2 (- 1) 1);
                     cosAngle1 = (l1 * l1 + targetDist * targetDist - l2 * l2) / (2 * l1 * targetDist);
                     angle1 = arccos (MathUtils_clamp cosAngle1 (- 1) 1);
                     baseAngle = atan2 (y (target chain) - y rootPos) (x (target chain) - x rootPos);
                     h1 = h(js ! 0 := Joint_setAngle (h (js ! 0)) (baseAngle + angle1))
                 in Inr (h1(js ! 1 := Joint_setAngle (h1 (js ! 1)) angle2)))"

subsection \<open>The chain that the JointChain constructor builds\<close>

text \<open>
  \<open>new JointChain()\<close> with its default root position: the root and, by
  \<open>initializeDefaultChain\<close>, three more joints in a line; the references are written as the
  names the constructor gives the joints.
\<close>

definition JointChain_new :: JointChain where
  "JointChain_new =
     \<lparr>root_joint = ''Root'', target = \<lparr>x = 600, y = 300\<rparr>, ikStrength = 1.0,
      iterations = 10, threshold = 0.1\<rparr>"

definition JointChain_new_heap :: heap where
  "JointChain_new_heap =
     (let h0 = (\<lambda>r. new_Joint \<lparr>x = 0, y = 0\<rparr> 50)
                (''Root'' := new_Joint \<lparr>x = 400, y = 300\<rparr> 60,
                 ''Joint_1'' := new_Joint \<lparr>x = 60, y = 0\<rparr> 50,
                 ''Joint_2'' := new_Joint \<lparr>x = 50, y = 0\<rparr> 40,
                 ''EndEffector'' := new_Joint \<lparr>x = 40, y = 0\<rparr> 30);
          h1 = Joint_addChild ''Root'' ''Joint_1'' h0;
          h2 = Joint_addChild ''Joint_1'' ''Joint_2'' h1;
          h3 = Joint_addChild ''Joint_2'' ''EndEffector'' h2;
          h4 = h3(''Joint_1'' := (h3 ''Joint_1'')\<lparr>constraints :=
                 \<lparr>enabled = True, minAngle = - pi * 0.8, maxAngle = pi * 0.8\<rparr>\<rparr>)
      in h4(''Joint_2'' := (h4 ''Joint_2'')\<lparr>constraints :=
                 \<lparr>enabled = True, minAngle = - pi * 0.6, maxAngle = pi * 0.6\<rparr>\<rparr>))"

subsection \<open>A chain of two joints\<close>

text \<open>
  A root of length 100 at the origin with one child of length 80 at the root's tip, as
  \<open>new Joint\<close> and \<open>addChild\<close> build them, and the chain's target at \<open>(120, 0)\<close>.
\<close>

definition twoJoint_chain :: JointChain where
  "twoJoint_chain =
     \<lparr>root_joint = ''Root'', target = \<lparr>x = 120, y = 0\<rparr>, ikStrength = 1.0,
      iterations = 10, threshold = 0.1\<rparr>"

definition twoJoint_heap :: heap where
  "twoJoint_heap =
     Joint_addChild ''Root'' ''Tip''
       ((\<lambda>r. new_Joint \<lparr>x = 0, y = 0\<rparr> 50)
          (''Root'' := new_Joint \<lparr>x = 0, y = 0\<rparr> 100,
           ''Tip'' := new_Joint \<lparr>x = 100, y = 0\<rparr> 80))"

text \<open>
  The constructor's chain with the IK weight of Joint_2 set to 2, the upper end of the range
  that the weight slider of the user interface offers.
\<close>

definition weighted_heap :: heap where
  "weighted_heap =
     JointChain_new_heap(''Joint_2'' := (JointChain_new_heap ''Joint_2'')\<lparr>ikWeight := 2\<rparr>)"


section \<open>Predicates used in the statements\<close>


text \<open>The angle of a joint lies in the range of its constraint block.\<close>

definition angleInRange :: "Joint \<Rightarrow> bool" where
  "angleInRange J =
     (minAngle (constraints J) \<le> angle J \<and> angle J \<le> maxAngle (constraints J))"

text \<open>
  The joints that the loop \<open>while (current)\<close> of \<open>Joint.updateIK\<close> visits, in the order of the
  visits: the list starts at \<open>current\<close> and follows the \<open>parent\<close> links up to a joint that has
  no parent.
\<close>

fun parentPath :: "heap \<Rightarrow> ref option \<Rightarrow> ref list \<Rightarrow> bool" where
  "parentPath h None js = (js = [])"
| "parentPath h (Some c) [] = False"
| "parentPath h (Some c) (j # js) = (j = c \<and> parentPath h (parent (h c)) js)"

text \<open>
  What one sweep does to a joint \<open>J\<close> that it visits, in the words of the specification
  except for the angle: a joint with IK enabled whose vectors to the end effector and to the
  target are both nonzero is turned by the direction angle of the target vector minus the
  direction angle of the effector vector, clamped (with constraints enabled) so that the
  resulting angle is in the constraint range, then scaled by the joint's IK weight times the
  effector's; the target angle becomes the angle plus this rotation, and the angle moves
  toward the target angle by the fraction \<open>1 - damping\<close>.  Any other joint is left as it is.
\<close>

definition sweepStep :: "real \<Rightarrow> Vector2 \<Rightarrow> Vector2 \<Rightarrow> Joint \<Rightarrow> Joint" where
  "sweepStep effectorWeight endEffector tgt J =
     (let jointPos = Joint_getWorldPosition J;
          toEnd = Vector2_subtract endEffector jointPos;
          toTarget = Vector2_subtract tgt jointPos
      in if ikEnabled J \<and> Vector2_magnitude toEnd > 0 \<and> Vector2_magnitude toTarget > 0 then
           let rotation = Vector2_angle toTarget - Vector2_angle toEnd;
               clamped =
                 (if enabled (constraints J) then
                    MathUtils_clamp (angle J + rotation)
                      (minAngle (constraints J)) (maxAngle (constraints J)) - angle J
                  else rotation);
               scaled = clamped * (ikWeight J * effectorWeight);
               newTarget = angle J + scaled
           in J\<lparr>targetAngle := newTarget,
                angle := angle J + (newTarget - angle J) * (1 - damping J)\<rparr>
         else J)"

text \<open>One sweep over the joints \<open>js\<close>, started from the joint \<open>this\<close>.\<close>

definition sweepHeap :: "ref \<Rightarrow> ref list \<Rightarrow> Vector2 \<Rightarrow> Vector2 \<Rightarrow> heap \<Rightarrow> heap" where
  "sweepHeap this js endEffector tgt h =
     (\<lambda>j. if j \<in> set js then sweepStep (ikWeight (h this)) endEffector tgt (h j) else h j)"

section \<open>Results, property reads\<close>

lemma bindE_Inr_iff: "bindE r f = Inr v \<longleftrightarrow> (\<exists>u. r = Inr u \<and> f u = Inr v)"
  by (cases r) (simp_all add: bindE_def)

lemma bindE_Inr [simp]: "bindE (Inr u) f = f u"
  by (simp add: bindE_def)

lemma bindE_Inl [simp]: "bindE (Inl e) f = Inl e"
  by (simp add: bindE_def)

lemma foldE_invariant:
  assumes "foldE f as s = Inr s'" and "P s"
      and "\<And>a s t. a \<in> set as \<Longrightarrow> P s \<Longrightarrow> f a s = Inr t \<Longrightarrow> P t"
  shows "P s'"
  using assms
proof (induction as arbitrary: s)
  case Nil
  then show ?case by simp
next
  case (Cons a as)
  from Cons.prems(1) obtain t where t: "f a s = Inr t" and rest: "foldE f as t = Inr s'"
    by (auto split: sum.splits)
  have Pt: "P t" using Cons.prems(3) [of a s t] Cons.prems(2) t by simp
  show ?case
  proof (rule Cons.IH [OF rest Pt])
    fix b u v
    assume "b \<in> set as" "P u" "f b u = Inr v"
    then show "P v" using Cons.prems(3) [of b u v] by simp
  qed
qed

lemma js_get_Some: "obj key = Some v \<Longrightarrow> js_get obj key = Own v"
  by (simp add: js_get_def)

lemma js_get_Own_iff: "js_get obj key = Own v \<longleftrightarrow> obj key = Some v"
  by (simp add: js_get_def split: option.splits)

lemma js_get_Undefined_iff:
  "js_get obj key = Undefined \<longleftrightarrow> obj key = None \<and> key \<notin> set Object_prototype"
  by (simp add: js_get_def split: option.splits)

lemma js_get_Inherited_iff:
  "js_get obj key = Inherited \<longleftrightarrow> obj key = None \<and> key \<in> set Object_prototype"
  by (simp add: js_get_def split: option.splits)

lemma jointPivot_Inr_iff:
  "jointPivot data j = Inr p \<longleftrightarrow> (\<exists>jDef. JOINT_DEFS data j = Some jDef \<and> p = pivot jDef)"
  by (auto simp: jointPivot_def js_get_def split: option.splits)

lemma jointPivot_Some: "JOINT_DEFS data j = Some jDef \<Longrightarrow> jointPivot data j = Inr (pivot jDef)"
  by (simp add: jointPivot_def js_get_def)

lemma jointParent_Some:
  "JOINT_DEFS data j = Some jDef \<Longrightarrow> jointParent data j = Inr (def_parent jDef)"
  by (simp add: jointParent_def js_get_def)

section \<open>Angle normalisation\<close>

lemma js_rem_congruent: "\<exists>k::int. js_rem a b = a + b * of_int k"
proof
  show "js_rem a b = a + b * of_int (- js_trunc (a / b))"
    by (simp add: js_rem_def)
qed

lemma js_rem_nonneg_range:
  assumes "0 \<le> a" and "0 < b"
  shows "0 \<le> js_rem a b \<and> js_rem a b < b"
proof -
  have q: "0 \<le> a / b" using assms by simp
  have lo: "of_int \<lfloor>a / b\<rfloor> \<le> a / b" by (rule of_int_floor_le)
  have hi: "a / b < of_int \<lfloor>a / b\<rfloor> + 1" by linarith
  from lo have "b * of_int \<lfloor>a / b\<rfloor> \<le> b * (a / b)"
    using assms(2) by (simp only: mult_le_cancel_left_pos)
  then have l: "b * of_int \<lfloor>a / b\<rfloor> \<le> a" using assms(2) by simp
  from hi have "b * (a / b) < b * (of_int \<lfloor>a / b\<rfloor> + 1)"
    using assms(2) by (simp only: mult_less_cancel_left_pos)
  then have h: "a < b * of_int \<lfloor>a / b\<rfloor> + b" using assms(2) by (simp add: algebra_simps)
  show ?thesis using q l h by (simp add: js_rem_def js_trunc_def)
qed

lemma js_rem_lower:
  assumes "0 < b"
  shows "- b < js_rem a b"
proof (cases "0 \<le> a")
  case True
  then show ?thesis using js_rem_nonneg_range [OF True assms] assms by linarith
next
  case False
  then have neg: "a / b < 0" using assms by (simp add: divide_neg_pos)
  have "of_int \<lceil>a / b\<rceil> < a / b + 1" by linarith
  then have "b * of_int \<lceil>a / b\<rceil> < b * (a / b + 1)"
    using assms by (simp only: mult_less_cancel_left_pos)
  then have "b * of_int \<lceil>a / b\<rceil> < a + b" using assms by (simp add: algebra_simps)
  then show ?thesis using neg by (simp add: js_rem_def js_trunc_def)
qed

text \<open>
  C8 (as the code has it).  For every angle \<open>a\<close>, \<open>normA a\<close> differs from \<open>a\<close> by a whole
  multiple of 360 and lies in the half-open interval \<open>[-180, 180)\<close>: the lower end is
  attained, the upper end is not.
\<close>

theorem normA_range: "(\<exists>k::int. normA a = a + 360 * of_int k) \<and> - 180 \<le> normA a \<and> normA a < 180"
proof -
  obtain k1 :: int where k1: "js_rem a 360 = a + 360 * of_int k1"
    using js_rem_congruent by blast
  obtain k2 :: int where k2: "js_rem (js_rem a 360 + 540) 360 = js_rem a 360 + 540 + 360 * of_int k2"
    using js_rem_congruent by blast
  have "normA a = a + 360 * of_int (k1 + k2 + 1)"
    using k1 k2 by (simp add: normA_def algebra_simps)
  then have cong: "\<exists>k::int. normA a = a + 360 * of_int k" by blast
  have "- 360 < js_rem a 360" using js_rem_lower [of 360 a] by simp
  then have "0 \<le> js_rem a 360 + 540" by simp
  then have "0 \<le> js_rem (js_rem a 360 + 540) 360 \<and> js_rem (js_rem a 360 + 540) 360 < 360"
    using js_rem_nonneg_range [of "js_rem a 360 + 540" 360] by simp
  then have "- 180 \<le> normA a \<and> normA a < 180" by (simp add: normA_def)
  with cong show ?thesis by blast
qed

text \<open>
  C8 (as the claim states it) fails at 180 degrees: \<open>normA 180\<close> is \<open>-180\<close>, which is
  outside \<open>(-180, 180]\<close>.
\<close>

theorem normA_180_counterexample: "normA 180 = - 180 \<and> \<not> (- 180 < normA 180 \<and> normA 180 \<le> 180)"
proof -
  have "js_rem 180 360 = 180" by (simp add: js_rem_def js_trunc_def)
  moreover have "js_rem 720 360 = 0" by (simp add: js_rem_def js_trunc_def)
  ultimately have "normA 180 = - 180" by (simp add: normA_def)
  then show ?thesis by simp
qed

section \<open>Matrix inversion\<close>

lemma list9:
  assumes "length (e :: 'a list) = 9"
  shows "\<exists>a b c d e' f g h i. e = [a, b, c, d, e', f, g, h, i]"
  using assms by (auto simp: numeral_eq_Suc length_Suc_conv)

lemma Matrix3_multiply_inverse:
  assumes len: "length (elements m) = 9" and det: "Matrix3_determinant m \<noteq> 0"
      and inv: "Matrix3_inverse m = Inr mi"
  shows "Matrix3_multiply m mi = Matrix3_identity"
proof -
  obtain a b c d e f g h i where m: "elements m = [a, b, c, d, e, f, g, h, i]"
    using list9 [OF len] by blast
  define D where "D = a * (e * i - f * h) - b * (d * i - f * g) + c * (d * h - e * g)"
  define k where "k = 1 / D"
  have D: "Matrix3_determinant m = D" by (simp add: Matrix3_determinant_def m D_def)
  have D0: "D \<noteq> 0" using det D by simp
  have Dk: "D * k = 1" using D0 by (simp add: k_def)
  have mi: "mi = Matrix3 [(e * i - f * h) * k, (c * h - b * i) * k, (b * f - c * e) * k,
       (f * g - d * i) * k, (a * i - c * g) * k, (c * d - a * f) * k,
       (d * h - e * g) * k, (b * g - a * h) * k, (a * e - b * d) * k]"
    using inv D by (simp add: Matrix3_inverse_def m Let_def k_def D_def split: if_splits)
  have r00: "a * ((e * i - f * h) * k) + b * ((f * g - d * i) * k) + c * ((d * h - e * g) * k) = 1"
  proof -
    have "a * ((e * i - f * h) * k) + b * ((f * g - d * i) * k) + c * ((d * h - e * g) * k) = D * k"
      by (simp add: D_def algebra_simps)
    then show ?thesis using Dk by simp
  qed
  have r01: "a * ((c * h - b * i) * k) + b * ((a * i - c * g) * k) + c * ((b * g - a * h) * k) = 0"
    by (simp add: algebra_simps)
  have r02: "a * ((b * f - c * e) * k) + b * ((c * d - a * f) * k) + c * ((a * e - b * d) * k) = 0"
    by (simp add: algebra_simps)
  have r10: "d * ((e * i - f * h) * k) + e * ((f * g - d * i) * k) + f * ((d * h - e * g) * k) = 0"
    by (simp add: algebra_simps)
  have r11: "d * ((c * h - b * i) * k) + e * ((a * i - c * g) * k) + f * ((b * g - a * h) * k) = 1"
  proof -
    have "d * ((c * h - b * i) * k) + e * ((a * i - c * g) * k) + f * ((b * g - a * h) * k) = D * k"
      by (simp add: D_def algebra_simps)
    then show ?thesis using Dk by simp
  qed
  have r12: "d * ((b * f - c * e) * k) + e * ((c * d - a * f) * k) + f * ((a * e - b * d) * k) = 0"
    by (simp add: algebra_simps)
  have r20: "g * ((e * i - f * h) * k) + h * ((f * g - d * i) * k) + i * ((d * h - e * g) * k) = 0"
    by (simp add: algebra_simps)
  have r21: "g * ((c * h - b * i) * k) + h * ((a * i - c * g) * k) + i * ((b * g - a * h) * k) = 0"
    by (simp add: algebra_simps)
  have r22: "g * ((b * f - c * e) * k) + h * ((c * d - a * f) * k) + i * ((a * e - b * d) * k) = 1"
  proof -
    have "g * ((b * f - c * e) * k) + h * ((c * d - a * f) * k) + i * ((a * e - b * d) * k) = D * k"
      by (simp add: D_def algebra_simps)
    then show ?thesis using Dk by simp
  qed
  have "Matrix3_multiply m mi = Matrix3
     [a * ((e * i - f * h) * k) + b * ((f * g - d * i) * k) + c * ((d * h - e * g) * k),
      a * ((c * h - b * i) * k) + b * ((a * i - c * g) * k) + c * ((b * g - a * h) * k),
      a * ((b * f - c * e) * k) + b * ((c * d - a * f) * k) + c * ((a * e - b * d) * k),
      d * ((e * i - f * h) * k) + e * ((f * g - d * i) * k) + f * ((d * h - e * g) * k),
      d * ((c * h - b * i) * k) + e * ((a * i - c * g) * k) + f * ((b * g - a * h) * k),
      d * ((b * f - c * e) * k) + e * ((c * d - a * f) * k) + f * ((a * e - b * d) * k),
      g * ((e * i - f * h) * k) + h * ((f * g - d * i) * k) + i * ((d * h - e * g) * k),
      g * ((c * h - b * i) * k) + h * ((a * i - c * g) * k) + i * ((b * g - a * h) * k),
      g * ((b * f - c * e) * k) + h * ((c * d - a * f) * k) + i * ((a * e - b * d) * k)]"
    unfolding mi Matrix3_multiply_def m Let_def
    by (simp add: upt_rec numeral_3_eq_3)
  then show ?thesis
    unfolding r00 r01 r02 r10 r11 r12 r20 r21 r22 by (simp add: Matrix3_identity_def)
qed

text \<open>
  C9.  For a matrix of nine elements, \<open>inverse\<close> throws exactly when the absolute value of
  the determinant is below \<open>1e-10\<close>; otherwise it returns a matrix, and the product of the
  matrix with it is the identity (exactly so over the reals).
\<close>

theorem Matrix3_inverse_spec:
  assumes "length (elements m) = 9"
  shows "(Matrix3_inverse m = Inl NotInvertible \<longleftrightarrow> \<bar>Matrix3_determinant m\<bar> < 1 / 10 ^ 10) \<and>
         (\<not> \<bar>Matrix3_determinant m\<bar> < 1 / 10 ^ 10 \<longrightarrow>
            (\<exists>mi. Matrix3_inverse m = Inr mi \<and> Matrix3_multiply m mi = Matrix3_identity))"
proof -
  have a: "Matrix3_inverse m = Inl NotInvertible \<longleftrightarrow> \<bar>Matrix3_determinant m\<bar> < 1 / 10 ^ 10"
    by (simp add: Matrix3_inverse_def Let_def)
  have b: "\<exists>mi. Matrix3_inverse m = Inr mi \<and> Matrix3_multiply m mi = Matrix3_identity"
    if nd: "\<not> \<bar>Matrix3_determinant m\<bar> < 1 / 10 ^ 10"
  proof -
    from nd have d0: "Matrix3_determinant m \<noteq> 0" by auto
    from nd obtain mi where mi: "Matrix3_inverse m = Inr mi"
      by (simp add: Matrix3_inverse_def Let_def)
    with Matrix3_multiply_inverse [OF assms d0 mi] show ?thesis by blast
  qed
  from a b show ?thesis by blast
qed

text \<open>
  The translation by \<open>(2, 3)\<close> has determinant 1 and is inverted to the translation by
  \<open>(-2, -3)\<close>; a matrix with two proportional rows has determinant 0 and is refused.
\<close>

theorem Matrix3_inverse_spec_witness:
  "length (elements (Matrix3_translation 2 3)) = 9 \<and>
   \<not> \<bar>Matrix3_determinant (Matrix3_translation 2 3)\<bar> < 1 / 10 ^ 10 \<and>
   Matrix3_inverse (Matrix3_translation 2 3) = Inr (Matrix3_translation (- 2) (- 3)) \<and>
   Matrix3_multiply (Matrix3_translation 2 3) (Matrix3_translation (- 2) (- 3)) = Matrix3_identity \<and>
   Matrix3_inverse (Matrix3 [1, 2, 3, 2, 4, 6, 0, 0, 1]) = Inl NotInvertible"
proof -
  have l: "length (elements (Matrix3_translation 2 3)) = 9"
    by (simp add: Matrix3_translation_def)
  have d: "Matrix3_determinant (Matrix3_translation 2 3) = 1"
    by (simp add: Matrix3_translation_def Matrix3_determinant_def)
  have i: "Matrix3_inverse (Matrix3_translation 2 3) = Inr (Matrix3_translation (- 2) (- 3))"
    by (simp add: Matrix3_translation_def Matrix3_inverse_def Matrix3_determinant_def)
  have s: "Matrix3_inverse (Matrix3 [1, 2, 3, 2, 4, 6, 0, 0, 1]) = Inl NotInvertible"
    using Matrix3_inverse_spec [of "Matrix3 [1, 2, 3, 2, 4, 6, 0, 0, 1]"]
    by (simp add: Matrix3_determinant_def)
  show ?thesis
    using Matrix3_inverse_spec [OF l] l d i s by auto
qed

section \<open>Soft reach damping\<close>

lemma hypot_nonneg: "0 \<le> hypot a b"
  by (simp add: hypot_def)

lemma hypot_scale: "hypot (a * r) (b * r) = \<bar>r\<bar> * hypot a b"
proof -
  have "a * r * (a * r) + b * r * (b * r) = r\<^sup>2 * (a * a + b * b)"
    by (simp add: power2_eq_square algebra_simps)
  then show ?thesis
    by (simp add: hypot_def real_sqrt_mult)
qed

lemma hypot_zero_right: "hypot a 0 = \<bar>a\<bar>"
  by (simp add: hypot_def)

lemma fold_add_sum_list: "fold (\<lambda>len sum. sum + len) ls (a::real) = a + sum_list ls"
  by (induction ls arbitrary: a) simp_all

lemma totalLength_sum_list: "totalLength ls = sum_list ls"
  by (simp add: totalLength_def fold_add_sum_list)

lemma mapE_Inr_set: "mapE f as = Inr bs \<Longrightarrow> b \<in> set bs \<Longrightarrow> \<exists>a \<in> set as. f a = Inr b"
  by (induction as arbitrary: bs) (auto split: sum.splits)

lemma mapE_Inr_length: "mapE f as = Inr bs \<Longrightarrow> length bs = length as"
  by (induction as arbitrary: bs) (auto split: sum.splits)

lemma buildChainLengths_nonneg:
  assumes "buildChainLengths data jointIds = Inr chainLengths"
  shows "0 \<le> totalLength chainLengths"
proof -
  have "0 \<le> l" if "l \<in> set chainLengths" for l
  proof -
    from mapE_Inr_set [OF assms [unfolded buildChainLengths_def] that]
    obtain i where "bindE (jointPivot data (jointIds ! (i + 1)))
                      (\<lambda>pivot. Inr (hypot (fst pivot) (snd pivot))) = Inr l"
      by blast
    then show ?thesis by (auto simp: bindE_Inr_iff hypot_nonneg)
  qed
  then show ?thesis by (simp add: totalLength_sum_list sum_list_nonneg)
qed

lemma damped_bounds:
  assumes sD: "0 \<le> (sD::real)" and o: "0 < ov"
  shows "0 \<le> sD * (1 - exp (- ov / sD)) \<and> sD * (1 - exp (- ov / sD)) \<le> ov"
proof (cases "sD = 0")
  case True
  then show ?thesis using o by simp
next
  case False
  then have pos: "0 < sD" using sD by simp
  have neg: "- ov / sD \<le> 0" using pos o by (simp add: divide_nonpos_pos)
  then have e1: "exp (- ov / sD) \<le> 1" by simp
  have "1 + (- ov / sD) \<le> exp (- ov / sD)" by (rule exp_ge_add_one_self)
  then have "1 - exp (- ov / sD) \<le> ov / sD" by simp
  then have "sD * (1 - exp (- ov / sD)) \<le> sD * (ov / sD)"
    using pos by (simp only: mult_le_cancel_left_pos)
  then have up: "sD * (1 - exp (- ov / sD)) \<le> ov" using pos by simp
  have "0 \<le> sD * (1 - exp (- ov / sD))" using sD e1 by simp
  with up show ?thesis by simp
qed

text \<open>
  C1 (as the code has it).  Let \<open>total\<close> be the sum of the chain's segment lengths, \<open>d\<close>
  the distance of the tgt from the chain's root point, \<open>softDist = total * 0.12\<close> and
  \<open>softThreshold = total * stretchRatio - softDist\<close>, the stretch ratio defaulting to 1.1.
  When the stretch ratio is at least 0.12 (so that \<open>softThreshold\<close> is not negative) and
  \<open>d > softThreshold\<close>, the tgt the solve uses lies on the segment from the root to the
  given tgt, at distance
  \<open>softThreshold + softDist * (1 - exp (- (d - softThreshold) / softDist))\<close> from the root;
  when \<open>d \<le> softThreshold\<close> the tgt is used unchanged.
\<close>

theorem softReachTarget_distance:
  assumes lens: "buildChainLengths data (joints chainDef) = Inr chainLengths"
      and ratio: "0.12 \<le> js_or (stretchRatio chainDef) 1.1"
  shows "let total = totalLength chainLengths;
             d = hypot (x tgt - x base) (y tgt - y base);
             softDist = total * 0.12;
             softThreshold = total * js_or (stretchRatio chainDef) 1.1 - softDist;
             newDist = softThreshold + softDist * (1 - exp (- (d - softThreshold) / softDist));
             eff = softReachTarget chainDef total base tgt
         in (d > softThreshold \<longrightarrow>
               hypot (x eff - x base) (y eff - y base) = newDist \<and>
               0 \<le> newDist / d \<and> newDist / d \<le> 1 \<and>
               x eff = x base + (x tgt - x base) * (newDist / d) \<and>
               y eff = y base + (y tgt - y base) * (newDist / d)) \<and>
            (d \<le> softThreshold \<longrightarrow> eff = tgt)"
proof -
  define total where "total = totalLength chainLengths"
  define d where "d = hypot (x tgt - x base) (y tgt - y base)"
  define sD where "sD = total * 0.12"
  define sT where "sT = total * js_or (stretchRatio chainDef) 1.1 - sD"
  define newDist where "newDist = sT + sD * (1 - exp (- (d - sT) / sD))"
  define eff where "eff = softReachTarget chainDef total base tgt"
  have total0: "0 \<le> total" using buildChainLengths_nonneg [OF lens] by (simp add: total_def)
  have sD0: "0 \<le> sD" using total0 by (simp add: sD_def)
  have "sT = total * (js_or (stretchRatio chainDef) 1.1 - 0.12)"
    by (simp add: sT_def sD_def algebra_simps)
  then have sT0: "0 \<le> sT" using total0 ratio by simp
  have eff_eq: "eff = (if d > sT
       then \<lparr>x = x base + (x tgt - x base) * (newDist / d),
             y = y base + (y tgt - y base) * (newDist / d)\<rparr>
       else tgt)"
    unfolding eff_def softReachTarget_def Let_def newDist_def sT_def sD_def d_def total_def
    by (rule refl)
  have far: "hypot (x eff - x base) (y eff - y base) = newDist \<and>
             0 \<le> newDist / d \<and> newDist / d \<le> 1 \<and>
             x eff = x base + (x tgt - x base) * (newDist / d) \<and>
             y eff = y base + (y tgt - y base) * (newDist / d)" if gt: "d > sT"
  proof -
    have dpos: "0 < d" using gt sT0 by simp
    have ov: "0 < d - sT" using gt by simp
    from damped_bounds [OF sD0 ov]
    have b: "0 \<le> sD * (1 - exp (- (d - sT) / sD))" "sD * (1 - exp (- (d - sT) / sD)) \<le> d - sT"
      by simp_all
    have n0: "0 \<le> newDist" using b sT0 by (simp add: newDist_def)
    have n1: "newDist \<le> d" using b by (simp add: newDist_def)
    have effx: "x eff = x base + (x tgt - x base) * (newDist / d)"
      and effy: "y eff = y base + (y tgt - y base) * (newDist / d)"
      using gt by (simp_all add: eff_eq)
    have "hypot (x eff - x base) (y eff - y base) =
            hypot ((x tgt - x base) * (newDist / d)) ((y tgt - y base) * (newDist / d))"
      by (simp only: effx effy add_diff_cancel_left')
    also have "\<dots> = \<bar>newDist / d\<bar> * d"
      unfolding hypot_scale by (simp only: d_def)
    also have "\<dots> = newDist" using n0 dpos by simp
    finally have h: "hypot (x eff - x base) (y eff - y base) = newDist" .
    show ?thesis using h n0 n1 dpos effx effy by simp
  qed
  have near: "eff = tgt" if "d \<le> sT"
    using that by (simp add: eff_eq)
  have "(d > sT \<longrightarrow>
               hypot (x eff - x base) (y eff - y base) = newDist \<and>
               0 \<le> newDist / d \<and> newDist / d \<le> 1 \<and>
               x eff = x base + (x tgt - x base) * (newDist / d) \<and>
               y eff = y base + (y tgt - y base) * (newDist / d)) \<and>
            (d \<le> sT \<longrightarrow> eff = tgt)"
    using far near by blast
  then show ?thesis
    unfolding Let_def eff_def newDist_def sT_def sD_def d_def total_def .
qed


lemma bitruvius_l_arm_lengths:
  "buildChainLengths BITRUVIUS_DATA [''l_shoulder'', ''l_elbow'', ''l_wrist''] = Inr [30, 25]"
  by (simp add: buildChainLengths_def jointPivot_def js_get_def BITRUVIUS_DATA_def upt_rec
        hypot_zero_right)

text \<open>
  The left arm chain of the repository's skeleton (segments 30 and 25, stretch ratio 1.1),
  root at the origin: a target at distance 100 is damped, one at distance 10 is kept.
\<close>

theorem softReachTarget_distance_witness:
  "buildChainLengths BITRUVIUS_DATA [''l_shoulder'', ''l_elbow'', ''l_wrist''] = Inr [30, 25] \<and>
   totalLength [30, 25] = 55 \<and>
   (0.12::real) \<le> js_or (Some 1.1) 1.1 \<and>
   hypot (100 - 0) (0 - 0) > 55 * 1.1 - 55 * 0.12 \<and>
   hypot (x (softReachTarget \<lparr>joints = [''l_shoulder'', ''l_elbow'', ''l_wrist''],
                stretchRatio = Some 1.1, curveStrength = Some 0.5\<rparr> 55
                \<lparr>x = 0, y = 0\<rparr> \<lparr>x = 100, y = 0\<rparr>) - 0)
         (y (softReachTarget \<lparr>joints = [''l_shoulder'', ''l_elbow'', ''l_wrist''],
                stretchRatio = Some 1.1, curveStrength = Some 0.5\<rparr> 55
                \<lparr>x = 0, y = 0\<rparr> \<lparr>x = 100, y = 0\<rparr>) - 0)
     = (55 * 1.1 - 55 * 0.12) + 55 * 0.12 * (1 - exp (- (100 - (55 * 1.1 - 55 * 0.12)) / (55 * 0.12))) \<and>
   softReachTarget \<lparr>joints = [''l_shoulder'', ''l_elbow'', ''l_wrist''],
                stretchRatio = Some 1.1, curveStrength = Some 0.5\<rparr> 55
                \<lparr>x = 0, y = 0\<rparr> \<lparr>x = 10, y = 0\<rparr> = \<lparr>x = 10, y = 0\<rparr>"
proof -
  let ?cd = "\<lparr>joints = [''l_shoulder'', ''l_elbow'', ''l_wrist''],
                stretchRatio = Some 1.1, curveStrength = Some 0.5\<rparr>"
  have l: "buildChainLengths BITRUVIUS_DATA (joints ?cd) = Inr [30, 25]"
    using bitruvius_l_arm_lengths by simp
  have t: "totalLength [30, 25] = 55" by (simp add: totalLength_def)
  have r: "(0.12::real) \<le> js_or (stretchRatio ?cd) 1.1" by (simp add: js_or_def)
  have far: "hypot (100 - 0) (0 - 0) > (55 * 1.1 - 55 * 0.12 :: real)"
    by (simp add: hypot_zero_right)
  have near: "hypot (10 - 0) (0 - 0) \<le> (55 * 1.1 - 55 * 0.12 :: real)"
    by (simp add: hypot_zero_right)
  let ?B = "\<lparr>x = 0, y = 0\<rparr> :: Vector2"
  let ?T = "\<lparr>x = 100, y = 0\<rparr> :: Vector2"
  let ?N = "\<lparr>x = 10, y = 0\<rparr> :: Vector2"
  let ?sT = "totalLength [30, 25] * js_or (stretchRatio ?cd) 1.1 - totalLength [30, 25] * 0.12"
  have far': "hypot (x ?T - x ?B) (y ?T - y ?B) > ?sT"
    using far by (simp add: t js_or_def)
  have near': "hypot (x ?N - x ?B) (y ?N - y ?B) \<le> ?sT"
    using near by (simp add: t js_or_def)
  have "hypot (x (softReachTarget ?cd (totalLength [30, 25]) ?B ?T) - x ?B)
              (y (softReachTarget ?cd (totalLength [30, 25]) ?B ?T) - y ?B)
        = ?sT + totalLength [30, 25] * 0.12 *
            (1 - exp (- (hypot (x ?T - x ?B) (y ?T - y ?B) - ?sT) / (totalLength [30, 25] * 0.12)))"
    using softReachTarget_distance [OF l r, of ?T ?B, unfolded Let_def] far' by blast
  then have fa: "hypot (x (softReachTarget ?cd 55 ?B ?T) - 0) (y (softReachTarget ?cd 55 ?B ?T) - 0)
     = (55 * 1.1 - 55 * 0.12) + 55 * 0.12 * (1 - exp (- (100 - (55 * 1.1 - 55 * 0.12)) / (55 * 0.12)))"
    by (simp add: t js_or_def hypot_zero_right)
  have "softReachTarget ?cd (totalLength [30, 25]) ?B ?N = ?N"
    using softReachTarget_distance [OF l r, of ?N ?B, unfolded Let_def] near' by blast
  then have ne: "softReachTarget ?cd 55 ?B ?N = ?N" by (simp add: t)
  show ?thesis using bitruvius_l_arm_lengths t r far fa ne by simp
qed

text \<open>
  C1 (as the claim states it) fails for a chain whose stretch ratio is below 0.12.  With one
  segment of length 100, stretch ratio 0.01, the root at the origin and the target at
  \<open>(1, 0)\<close>: \<open>softThreshold = -11\<close>, the damped distance \<open>1 - 12 * exp (- 1)\<close> is negative,
  and the target used by the solve lies on the other side of the root; its distance from the
  root is not the damped distance.
\<close>

theorem softReachTarget_negative_threshold_counterexample:
  "buildChainLengths
     \<lparr>JOINT_DEFS = map_of [(''a'', \<lparr>def_parent = None, pivot = (0, 0)\<rparr>),
                           (''b'', \<lparr>def_parent = Some ''a'', pivot = (100, 0)\<rparr>)],
      IK_CHAINS = map_of [(''c'', \<lparr>joints = [''a'', ''b''], stretchRatio = Some 0.01,
                                   curveStrength = None\<rparr>)],
      JOINT_LIMITS = Map.empty\<rparr> [''a'', ''b''] = Inr [100] \<and>
   totalLength [100] = 100 \<and>
   hypot (1 - 0) (0 - 0) > 100 * js_or (Some 0.01) 1.1 - 100 * 0.12 \<and>
   hypot (x (softReachTarget \<lparr>joints = [''a'', ''b''], stretchRatio = Some 0.01, curveStrength = None\<rparr>
               100 \<lparr>x = 0, y = 0\<rparr> \<lparr>x = 1, y = 0\<rparr>) - 0)
         (y (softReachTarget \<lparr>joints = [''a'', ''b''], stretchRatio = Some 0.01, curveStrength = None\<rparr>
               100 \<lparr>x = 0, y = 0\<rparr> \<lparr>x = 1, y = 0\<rparr>) - 0)
     \<noteq> (100 * js_or (Some 0.01) 1.1 - 100 * 0.12) +
         100 * 0.12 * (1 - exp (- (hypot (1 - 0) (0 - 0) - (100 * js_or (Some 0.01) 1.1 - 100 * 0.12))
                                  / (100 * 0.12))) \<and>
   x (softReachTarget \<lparr>joints = [''a'', ''b''], stretchRatio = Some 0.01, curveStrength = None\<rparr>
               100 \<lparr>x = 0, y = 0\<rparr> \<lparr>x = 1, y = 0\<rparr>) < 0"
proof -
  let ?cd = "\<lparr>joints = [''a'', ''b''], stretchRatio = Some 0.01, curveStrength = None\<rparr>"
  have e: "exp (- 1 :: real) > 1 / 12"
  proof -
    have "exp (1::real) < 12" using exp_le by linarith
    then have "1 / 12 < 1 / exp (1::real)" by (simp add: field_simps)
    then show ?thesis by (simp add: exp_minus inverse_eq_divide)
  qed
  have eff: "softReachTarget ?cd 100 \<lparr>x = 0, y = 0\<rparr> \<lparr>x = 1, y = 0\<rparr>
             = \<lparr>x = 1 - 12 * exp (- 1), y = 0\<rparr>"
    by (simp add: softReachTarget_def js_or_def hypot_zero_right Let_def algebra_simps)
  have neg: "1 - 12 * exp (- 1 :: real) < 0" using e by simp
  have h: "hypot (1 - 12 * exp (- 1)) 0 = 12 * exp (- 1) - 1"
    using neg by (simp add: hypot_zero_right)
  have l: "buildChainLengths
     \<lparr>JOINT_DEFS = map_of [(''a'', \<lparr>def_parent = None, pivot = (0, 0)\<rparr>),
                           (''b'', \<lparr>def_parent = Some ''a'', pivot = (100, 0)\<rparr>)],
      IK_CHAINS = map_of [(''c'', ?cd)],
      JOINT_LIMITS = Map.empty\<rparr> [''a'', ''b''] = Inr [100]"
    by (simp add: buildChainLengths_def jointPivot_def js_get_def hypot_zero_right)
  have t: "totalLength [100] = 100" by (simp add: totalLength_def)
  show ?thesis
    unfolding eff using l t neg h
    by (simp add: js_or_def hypot_zero_right algebra_simps)
qed

section \<open>The advanced solver: what a solve returns\<close>

lemma extractStep_Inr:
  assumes "extractStep data jointIds currentRots center finalPoints finalRots i objs = Inr objs'"
  shows "\<exists>v. objs' = objs[finalRots := (objs ! finalRots)(jointIds ! i \<mapsto> v)]"
  using assms by (auto simp: extractStep_def Let_def bindE_Inr_iff)

lemma in_set_butlast_nth:
  assumes "j \<in> set (butlast js)"
  shows "\<exists>i < length js - 1. js ! i = j"
proof -
  from assms obtain i where "i < length (butlast js)" "butlast js ! i = j"
    by (auto simp: in_set_conv_nth)
  then show ?thesis by (auto simp: nth_butlast)
qed

lemma nth_in_set_butlast:
  assumes "i < length js - 1"
  shows "js ! i \<in> set (butlast js)"
proof -
  have "butlast js ! i = js ! i" using assms by (simp add: nth_butlast)
  moreover have "i < length (butlast js)" using assms by simp
  ultimately show ?thesis by (metis nth_mem)
qed

text \<open>
  The extraction loop writes the object \<open>finalRots\<close> only, and there only the entries of the
  chain's joints before the last.
\<close>

lemma extract_frame:
  assumes run: "foldE (extractStep data jointIds currentRots center finalPoints finalRots)
             [0..<length jointIds - 1] objs = Inr objs'"
  shows "length objs' = length objs \<and>
         (\<forall>a. a \<noteq> finalRots \<longrightarrow> objs' ! a = objs ! a) \<and>
         (\<forall>j. j \<notin> set (butlast jointIds) \<longrightarrow> (objs' ! finalRots) j = (objs ! finalRots) j)"
proof (rule foldE_invariant [OF run, where P = "\<lambda>q. length q = length objs \<and>
         (\<forall>a. a \<noteq> finalRots \<longrightarrow> q ! a = objs ! a) \<and>
         (\<forall>j. j \<notin> set (butlast jointIds) \<longrightarrow> (q ! finalRots) j = (objs ! finalRots) j)"])
  show "length objs = length objs \<and>
         (\<forall>a. a \<noteq> finalRots \<longrightarrow> objs ! a = objs ! a) \<and>
         (\<forall>j. j \<notin> set (butlast jointIds) \<longrightarrow> (objs ! finalRots) j = (objs ! finalRots) j)"
    by simp
next
  fix i q t
  assume i: "i \<in> set [0..<length jointIds - 1]"
     and q: "length q = length objs \<and>
         (\<forall>a. a \<noteq> finalRots \<longrightarrow> q ! a = objs ! a) \<and>
         (\<forall>j. j \<notin> set (butlast jointIds) \<longrightarrow> (q ! finalRots) j = (objs ! finalRots) j)"
     and t: "extractStep data jointIds currentRots center finalPoints finalRots i q = Inr t"
  from extractStep_Inr [OF t] obtain v where
    v: "t = q[finalRots := (q ! finalRots)(jointIds ! i \<mapsto> v)]" by blast
  from i have mem: "jointIds ! i \<in> set (butlast jointIds)" by (simp add: nth_in_set_butlast)
  have l: "length t = length objs" using v q by simp
  have o: "t ! a = objs ! a" if "a \<noteq> finalRots" for a using v q that by simp
  have f: "(t ! finalRots) j = (objs ! finalRots) j" if "j \<notin> set (butlast jointIds)" for j
  proof (cases "finalRots < length q")
    case True
    have "jointIds ! i \<noteq> j" using mem that by auto
    then show ?thesis using v q that True by simp
  next
    case False
    then have "t = q" using v by (simp add: list_update_beyond)
    then show ?thesis using q that by simp
  qed
  show "length t = length objs \<and>
         (\<forall>a. a \<noteq> finalRots \<longrightarrow> t ! a = objs ! a) \<and>
         (\<forall>j. j \<notin> set (butlast jointIds) \<longrightarrow> (t ! finalRots) j = (objs ! finalRots) j)"
    using l o f by blast
qed

lemma solveIK_Advanced_cases:
  assumes "solveIK_Advanced data random chainId targetX targetY currentRots center objs
             = Inr (res, objs')"
  shows "(js_get (IK_CHAINS data) chainId = Undefined \<and> res = currentRots \<and> objs' = objs) \<or>
         (\<exists>chainDef. IK_CHAINS data chainId = Some chainDef \<and> length (joints chainDef) < 2 \<and>
              res = currentRots \<and> objs' = objs) \<or>
         (\<exists>chainDef st. IK_CHAINS data chainId = Some chainDef \<and> 2 \<le> length (joints chainDef) \<and>
              solveBest data random chainId chainDef targetX targetY (objs ! currentRots) center
                = Inr st \<and>
              res = length objs \<and>
              foldE (extractStep data (joints chainDef) currentRots center (bestPoints st)
                       (length objs))
                 [0..<length (joints chainDef) - 1] (objs @ [objs ! currentRots]) = Inr objs')"
proof (cases "js_get (IK_CHAINS data) chainId")
  case (Own chainDef)
  then have cd: "IK_CHAINS data chainId = Some chainDef" by (simp add: js_get_Own_iff)
  show ?thesis
  proof (cases "length (joints chainDef) < 2")
    case True
    then show ?thesis using assms Own cd by (simp add: solveIK_Advanced_def Let_def)
  next
    case False
    then have "\<exists>st. solveBest data random chainId chainDef targetX targetY (objs ! currentRots)
                       center = Inr st \<and>
              res = length objs \<and>
              foldE (extractStep data (joints chainDef) currentRots center (bestPoints st)
                       (length objs))
                 [0..<length (joints chainDef) - 1] (objs @ [objs ! currentRots]) = Inr objs'"
      using assms Own by (auto simp: solveIK_Advanced_def Let_def bindE_Inr_iff)
    then show ?thesis using cd False by auto
  qed
next
  case Inherited
  then show ?thesis using assms by (simp add: solveIK_Advanced_def)
next
  case Undefined
  then show ?thesis using assms by (simp add: solveIK_Advanced_def)
qed

lemma solveIK_Advanced_extract:
  assumes "IK_CHAINS data chainId = Some chainDef"
      and "2 \<le> length (joints chainDef)"
      and "solveBest data random chainId chainDef targetX targetY (objs ! currentRots) center
             = Inr st"
  shows "solveIK_Advanced data random chainId targetX targetY currentRots center objs =
           bindE (foldE (extractStep data (joints chainDef) currentRots center (bestPoints st)
                           (length objs))
                    [0..<length (joints chainDef) - 1] (objs @ [objs ! currentRots]))
             (\<lambda>objs'. Inr (length objs, objs'))"
  using assms by (simp add: solveIK_Advanced_def js_get_Some Let_def)

text \<open>What a solve that returns leaves as it was.\<close>

lemma solveIK_Advanced_keeps:
  assumes run: "solveIK_Advanced data random chainId targetX targetY currentRots center objs
                  = Inr (res, objs')"
      and valid: "currentRots < length objs"
  shows "take (length objs) objs' = objs"
    and "objs' ! currentRots = objs ! currentRots"
    and "IK_CHAINS data chainId = Some chainDef \<Longrightarrow> j \<notin> set (butlast (joints chainDef)) \<Longrightarrow>
           (objs' ! res) j = (objs ! currentRots) j"
proof -
  let ?o1 = "objs @ [objs ! currentRots]"
  from solveIK_Advanced_cases [OF run] consider
      (same) "res = currentRots" "objs' = objs"
    | (solved) cd :: ChainDef and st :: SolveState where
        "IK_CHAINS data chainId = Some cd" "res = length objs"
        "foldE (extractStep data (joints cd) currentRots center (bestPoints st) (length objs))
           [0..<length (joints cd) - 1] ?o1 = Inr objs'"
    by (auto simp del: One_nat_def)
  then have "take (length objs) objs' = objs \<and> objs' ! currentRots = objs ! currentRots \<and>
     (IK_CHAINS data chainId = Some chainDef \<longrightarrow> j \<notin> set (butlast (joints chainDef)) \<longrightarrow>
           (objs' ! res) j = (objs ! currentRots) j)"
  proof cases
    case same
    then show ?thesis by simp
  next
    case solved
    from extract_frame [OF solved(3)] have
      len: "length objs' = length ?o1" and
      oth: "\<And>a. a \<noteq> length objs \<Longrightarrow> objs' ! a = ?o1 ! a" and
      fin: "\<And>j. j \<notin> set (butlast (joints cd)) \<Longrightarrow> (objs' ! length objs) j = (?o1 ! length objs) j"
      by blast+
    have t: "take (length objs) objs' = objs"
    proof (rule nth_equalityI)
      show "length (take (length objs) objs') = length objs" using len by simp
    next
      fix a assume "a < length (take (length objs) objs')"
      then have a: "a < length objs" by simp
      then have "objs' ! a = ?o1 ! a" using oth [of a] by simp
      then show "take (length objs) objs' ! a = objs ! a" using a by (simp add: nth_append)
    qed
    have c: "objs' ! currentRots = objs ! currentRots"
      using oth [of currentRots] valid by (simp add: nth_append)
    have f: "(objs' ! res) j = (objs ! currentRots) j"
      if "IK_CHAINS data chainId = Some chainDef" "j \<notin> set (butlast (joints chainDef))"
    proof -
      have "chainDef = cd" using that(1) solved(1) by simp
      then show ?thesis using fin [of j] that(2) solved(2) by simp
    qed
    show ?thesis using t c f by blast
  qed
  then show "take (length objs) objs' = objs"
    and "objs' ! currentRots = objs ! currentRots"
    and "IK_CHAINS data chainId = Some chainDef \<Longrightarrow> j \<notin> set (butlast (joints chainDef)) \<Longrightarrow>
           (objs' ! res) j = (objs ! currentRots) j"
    by blast+
qed

text \<open>
  C10, as far as it holds.  \<open>currentRots\<close> refers to one of the objects \<open>objs\<close>, and the call
  returns the reference \<open>res\<close> with the objects \<open>objs'\<close>.  No object that existed before
  the call is changed, so the map the caller passed is not mutated.  When the chain id is
  unknown or the chain has fewer than two joints, the call returns its argument itself and
  allocates nothing; when the chain is solved it returns a new object.  In the returned map
  every joint that is not among the chain's joints before the last has the rotation of the
  input map: so every joint outside the chain, and the effector when the chain does not list
  it a second time before its end.
\<close>

theorem solveIK_Advanced_frame:
  assumes run: "solveIK_Advanced data random chainId targetX targetY currentRots center objs
                  = Inr (res, objs')"
      and valid: "currentRots < length objs"
  shows "take (length objs) objs' = objs \<and>
         objs' ! currentRots = objs ! currentRots \<and>
         (js_get (IK_CHAINS data) chainId = Undefined \<longrightarrow> res = currentRots \<and> objs' = objs) \<and>
         (\<forall>chainDef. IK_CHAINS data chainId = Some chainDef \<longrightarrow>
            (length (joints chainDef) < 2 \<longrightarrow> res = currentRots \<and> objs' = objs) \<and>
            (2 \<le> length (joints chainDef) \<longrightarrow>
               res = length objs \<and> length objs' = Suc (length objs)) \<and>
            (\<forall>j. j \<notin> set (butlast (joints chainDef)) \<longrightarrow>
               (objs' ! res) j = (objs ! currentRots) j) \<and>
            (\<forall>j. j \<notin> set (joints chainDef) \<longrightarrow> (objs' ! res) j = (objs ! currentRots) j) \<and>
            (joints chainDef \<noteq> [] \<and> last (joints chainDef) \<notin> set (butlast (joints chainDef)) \<longrightarrow>
               (objs' ! res) (last (joints chainDef))
                 = (objs ! currentRots) (last (joints chainDef))))"
proof -
  note k = solveIK_Advanced_keeps [OF run valid]
  have und: "res = currentRots \<and> objs' = objs" if "js_get (IK_CHAINS data) chainId = Undefined"
    using solveIK_Advanced_cases [OF run] that by (auto simp: js_get_Undefined_iff)
  have short: "res = currentRots \<and> objs' = objs"
    if "IK_CHAINS data chainId = Some chainDef" "length (joints chainDef) < 2" for chainDef
    using solveIK_Advanced_cases [OF run] that by (auto simp: js_get_Undefined_iff)
  have solved: "res = length objs \<and> length objs' = Suc (length objs)"
    if cd: "IK_CHAINS data chainId = Some chainDef" and len: "2 \<le> length (joints chainDef)"
    for chainDef
  proof -
    from solveIK_Advanced_cases [OF run] cd len obtain st :: SolveState where
      r: "res = length objs" and
      e: "foldE (extractStep data (joints chainDef) currentRots center (bestPoints st)
                   (length objs))
            [0..<length (joints chainDef) - 1] (objs @ [objs ! currentRots]) = Inr objs'"
      by (auto simp: js_get_Undefined_iff simp del: One_nat_def)
    from extract_frame [OF e] show ?thesis using r by simp
  qed
  have bl: "(objs' ! res) j = (objs ! currentRots) j"
    if "IK_CHAINS data chainId = Some chainDef" "j \<notin> set (butlast (joints chainDef))"
    for chainDef j
    using k(3) that by blast
  have mem: "j \<notin> set (butlast js)" if "j \<notin> set js" for j and js :: "string list"
    using that by (auto dest: in_set_butlastD)
  show ?thesis using k(1,2) und short solved bl mem by blast
qed

section \<open>The advanced solver: the best candidate\<close>






section \<open>A solve on the repository's skeleton\<close>

text \<open>
  The left arm chain of \<open>BITRUVIUS_DATA\<close>, with the elbow rotated by 90 degrees, the wrist
  by 10 and the head by 5, the canvas centre at the origin, and the target at the wrist.
\<close>

lemma normA_0: "normA 0 = 0"
  by (simp add: normA_def js_rem_def js_trunc_def)

lemma path_l_collar:
  "ancestorPath BITRUVIUS_DATA (Some ''l_collar'') [] = Some [''root'', ''torso'', ''l_collar'']"
  by (simp add: ancestorPath.simps BITRUVIUS_DATA_def js_get_def)

lemma path_l_shoulder:
  "ancestorPath BITRUVIUS_DATA (Some ''l_shoulder'') [] =
     Some [''root'', ''torso'', ''l_collar'', ''l_shoulder'']"
  by (simp add: ancestorPath.simps BITRUVIUS_DATA_def js_get_def)

lemma path_l_elbow:
  "ancestorPath BITRUVIUS_DATA (Some ''l_elbow'') [] =
     Some [''root'', ''torso'', ''l_collar'', ''l_shoulder'', ''l_elbow'']"
  by (simp add: ancestorPath.simps BITRUVIUS_DATA_def js_get_def)

lemma path_l_wrist:
  "ancestorPath BITRUVIUS_DATA (Some ''l_wrist'') [] =
     Some [''root'', ''torso'', ''l_collar'', ''l_shoulder'', ''l_elbow'', ''l_wrist'']"
  by (simp add: ancestorPath.simps BITRUVIUS_DATA_def js_get_def)

lemma world_l_collar:
  "computeWorld BITRUVIUS_DATA ''l_collar'' [''head'' \<mapsto> 5, ''l_elbow'' \<mapsto> 90, ''l_wrist'' \<mapsto> 10] (0, 0) =
     Inr \<lparr>x = - 32, y = - 71, angle_w = 0, parentAngle = 0\<rparr>"
  unfolding computeWorld_def path_l_collar
  by (simp add: computeWorld_step_def jointPivot_def js_rotation_def js_get_def
        Object_prototype_def BITRUVIUS_DATA_def d2r_def r2d_def normA_0)

lemma bitruvius_l_arm_points:
  "buildChainPoints BITRUVIUS_DATA [''l_shoulder'', ''l_elbow'', ''l_wrist'']
     [''head'' \<mapsto> 5, ''l_elbow'' \<mapsto> 90, ''l_wrist'' \<mapsto> 10] (0, 0) =
   Inr [\<lparr>x = - 54, y = - 71\<rparr>, \<lparr>x = - 84, y = - 71\<rparr>, \<lparr>x = - 84, y = - 96\<rparr>]"
  unfolding buildChainPoints_def mapE.simps computeWorld_def
    path_l_shoulder path_l_elbow path_l_wrist
  by (simp add: computeWorld_step_def jointPivot_def js_rotation_def js_get_def
        Object_prototype_def BITRUVIUS_DATA_def d2r_def)

lemma hypot_30_25: "hypot (- 30) (- 25) \<le> 539 / 10"
  unfolding hypot_def by (rule real_le_lsqrt) (simp_all add: power2_eq_square)

lemma bitruvius_l_arm_target:
  "softReachTarget \<lparr>joints = [''l_shoulder'', ''l_elbow'', ''l_wrist''],
       stretchRatio = Some 1.1, curveStrength = Some 0.5\<rparr> (totalLength [30, 25])
     \<lparr>x = - 54, y = - 71\<rparr> \<lparr>x = - 84, y = - 96\<rparr> = \<lparr>x = - 84, y = - 96\<rparr>"
  using hypot_30_25 by (simp add: softReachTarget_def totalLength_def js_or_def Let_def)

lemma naturalBias_nth:
  "i \<noteq> 1 \<Longrightarrow> naturalBias chainId chainDef numPoints chainLengths tgt pts ! i = pts ! i"
  by (simp add: naturalBias_def Let_def)

lemma naturalBias_length:
  "length (naturalBias chainId chainDef numPoints chainLengths tgt pts) = length pts"
  by (simp add: naturalBias_def Let_def)

lemma solveLoop_break:
  assumes "effectorDist numPoints tgt (chainPoints st) < 0.01" and "bestDist st = None"
  shows "solveLoop (Suc k) iter data random jointIds chainLengths currentRots center numPoints
           tgt initialBasePos st =
         Inr (st\<lparr>evaluated := chainPoints st # evaluated st,
                 bestDist := Some (effectorDist numPoints tgt (chainPoints st)),
                 bestPoints := chainPoints st\<rparr>)"
  using assms by (simp add: Let_def)

lemma bitruvius_l_arm_best:
  "solveBest BITRUVIUS_DATA random ''l_arm_chain''
     \<lparr>joints = [''l_shoulder'', ''l_elbow'', ''l_wrist''],
       stretchRatio = Some 1.1, curveStrength = Some 0.5\<rparr> (- 84) (- 96)
     [''head'' \<mapsto> 5, ''l_elbow'' \<mapsto> 90, ''l_wrist'' \<mapsto> 10] (0, 0) =
   Inr \<lparr>chainPoints = naturalBias ''l_arm_chain''
           \<lparr>joints = [''l_shoulder'', ''l_elbow'', ''l_wrist''],
             stretchRatio = Some 1.1, curveStrength = Some 0.5\<rparr> 3 [30, 25]
           \<lparr>x = - 84, y = - 96\<rparr>
           [\<lparr>x = - 54, y = - 71\<rparr>, \<lparr>x = - 84, y = - 71\<rparr>, \<lparr>x = - 84, y = - 96\<rparr>],
        bestDist = Some 0,
        bestPoints = naturalBias ''l_arm_chain''
           \<lparr>joints = [''l_shoulder'', ''l_elbow'', ''l_wrist''],
             stretchRatio = Some 1.1, curveStrength = Some 0.5\<rparr> 3 [30, 25]
           \<lparr>x = - 84, y = - 96\<rparr>
           [\<lparr>x = - 54, y = - 71\<rparr>, \<lparr>x = - 84, y = - 71\<rparr>, \<lparr>x = - 84, y = - 96\<rparr>],
        randomCalls = 0,
        evaluated = [naturalBias ''l_arm_chain''
           \<lparr>joints = [''l_shoulder'', ''l_elbow'', ''l_wrist''],
             stretchRatio = Some 1.1, curveStrength = Some 0.5\<rparr> 3 [30, 25]
           \<lparr>x = - 84, y = - 96\<rparr>
           [\<lparr>x = - 54, y = - 71\<rparr>, \<lparr>x = - 84, y = - 71\<rparr>, \<lparr>x = - 84, y = - 96\<rparr>]]\<rparr>"
proof -
  let ?cd = "\<lparr>joints = [''l_shoulder'', ''l_elbow'', ''l_wrist''],
       stretchRatio = Some 1.1, curveStrength = Some 0.5\<rparr>"
  let ?P = "[\<lparr>x = - 54, y = - 71\<rparr>, \<lparr>x = - 84, y = - 71\<rparr>, \<lparr>x = - 84, y = - 96\<rparr>]"
  let ?T = "\<lparr>x = - 84, y = - 96\<rparr> :: Vector2"
  let ?B = "naturalBias ''l_arm_chain'' ?cd 3 [30, 25] ?T ?P"
  have d: "effectorDist 3 ?T ?B = 0"
    by (simp add: effectorDist_def naturalBias_nth hypot_def)
  have fifty: "(50::nat) = Suc 49" by simp
  have loop: "solveLoop 50 0 BITRUVIUS_DATA random [''l_shoulder'', ''l_elbow'', ''l_wrist'']
           [30, 25] [''head'' \<mapsto> 5, ''l_elbow'' \<mapsto> 90, ''l_wrist'' \<mapsto> 10] (0, 0) 3 ?T \<lparr>x = - 54, y = - 71\<rparr>
           \<lparr>chainPoints = ?B, bestDist = None, bestPoints = ?B, randomCalls = 0, evaluated = []\<rparr>
        = Inr \<lparr>chainPoints = ?B, bestDist = Some 0, bestPoints = ?B, randomCalls = 0,
               evaluated = [?B]\<rparr>"
    unfolding fifty by (subst solveLoop_break) (use d in simp_all)
  have j: "joints ?cd = [''l_shoulder'', ''l_elbow'', ''l_wrist'']" by simp
  have len3: "length ?P = 3" by simp
  have nth0: "?P ! 0 = \<lparr>x = - 54, y = - 71\<rparr>" by simp
  show ?thesis
    by (simp only: solveBest_def Let_def j bitruvius_l_arm_points bindE_Inr
          bitruvius_l_arm_lengths len3 nth0 bitruvius_l_arm_target loop)
qed


lemma bitruvius_lookups:
  "IK_CHAINS BITRUVIUS_DATA ''l_arm_chain'' =
     Some \<lparr>joints = [''l_shoulder'', ''l_elbow'', ''l_wrist''],
            stretchRatio = Some 1.1, curveStrength = Some 0.5\<rparr>"
  "jointParent BITRUVIUS_DATA ''l_shoulder'' = Inr (Some ''l_collar'')"
  "jointParent BITRUVIUS_DATA ''l_elbow'' = Inr (Some ''l_shoulder'')"
  "js_get (JOINT_LIMITS BITRUVIUS_DATA) ''l_shoulder'' = Own \<lparr>lim_min = - 180, lim_max = 180\<rparr>"
  "js_get (JOINT_LIMITS BITRUVIUS_DATA) ''l_elbow'' = Own \<lparr>lim_min = 0, lim_max = 150\<rparr>"
  by (simp_all add: BITRUVIUS_DATA_def jointParent_def js_get_def)

text \<open>
  The caller's map is the only object; the solve returns a second one, in which shoulder
  and elbow are set.
\<close>

lemma bitruvius_l_arm_solve:
  "\<exists>a b. solveIK_Advanced BITRUVIUS_DATA random ''l_arm_chain'' (- 84) (- 96) 0 (0, 0)
            [[''head'' \<mapsto> 5, ''l_elbow'' \<mapsto> 90, ''l_wrist'' \<mapsto> 10]] =
          Inr (1, [[''head'' \<mapsto> 5, ''l_elbow'' \<mapsto> 90, ''l_wrist'' \<mapsto> 10],
                   [''head'' \<mapsto> 5, ''l_elbow'' \<mapsto> b, ''l_wrist'' \<mapsto> 10, ''l_shoulder'' \<mapsto> a]])"
proof -
  let ?rots = "[''head'' \<mapsto> 5, ''l_elbow'' \<mapsto> 90, ''l_wrist'' \<mapsto> (10::real)]"
  let ?js = "[''l_shoulder'', ''l_elbow'', ''l_wrist'']"
  have two: "[0..<length ?js - 1] = [0, 1]" by (simp add: upt_rec)
  have s0: "\<exists>a. extractStep BITRUVIUS_DATA ?js 0 (0, 0) pts 1 0 [?rots, m]
               = Inr [?rots, m(''l_shoulder'' \<mapsto> a)]"
    for pts m
    by (simp add: extractStep_def Let_def bitruvius_lookups world_l_collar) blast
  have s1: "\<exists>b. extractStep BITRUVIUS_DATA ?js 0 (0, 0) pts 1 1 [?rots, m]
               = Inr [?rots, m(''l_elbow'' \<mapsto> b)]"
    for pts m
    by (simp add: extractStep_def Let_def bitruvius_lookups) blast
  have ex: "\<exists>a b. foldE (extractStep BITRUVIUS_DATA ?js 0 (0, 0) pts 1) [0..<length ?js - 1]
              [?rots, ?rots]
          = Inr [?rots, [''head'' \<mapsto> 5, ''l_elbow'' \<mapsto> b, ''l_wrist'' \<mapsto> 10, ''l_shoulder'' \<mapsto> a]]"
    for pts
  proof -
    obtain a where a: "extractStep BITRUVIUS_DATA ?js 0 (0, 0) pts 1 0 [?rots, ?rots]
          = Inr [?rots, ?rots(''l_shoulder'' \<mapsto> a)]"
      using s0 by blast
    obtain b where b: "extractStep BITRUVIUS_DATA ?js 0 (0, 0) pts 1 1
            [?rots, ?rots(''l_shoulder'' \<mapsto> a)]
          = Inr [?rots, ?rots(''l_shoulder'' \<mapsto> a, ''l_elbow'' \<mapsto> b)]"
      using s1 by blast
    have m: "?rots(''l_shoulder'' \<mapsto> a, ''l_elbow'' \<mapsto> b) =
      [''head'' \<mapsto> 5, ''l_elbow'' \<mapsto> b, ''l_wrist'' \<mapsto> 10, ''l_shoulder'' \<mapsto> a]"
      by (rule ext) simp
    have "foldE (extractStep BITRUVIUS_DATA ?js 0 (0, 0) pts 1) [0..<length ?js - 1]
              [?rots, ?rots]
          = Inr [?rots, ?rots(''l_shoulder'' \<mapsto> a, ''l_elbow'' \<mapsto> b)]"
      unfolding two using a b by simp
    then show ?thesis unfolding m by blast
  qed
  let ?cd = "\<lparr>joints = ?js, stretchRatio = Some 1.1, curveStrength = Some 0.5\<rparr>"
  have len: "2 \<le> length (joints ?cd)" by simp
  have best: "solveBest BITRUVIUS_DATA random ''l_arm_chain'' ?cd (- 84) (- 96) ([?rots] ! 0) (0, 0)
     = Inr \<lparr>chainPoints = naturalBias ''l_arm_chain'' ?cd 3 [30, 25] \<lparr>x = - 84, y = - 96\<rparr>
           [\<lparr>x = - 54, y = - 71\<rparr>, \<lparr>x = - 84, y = - 71\<rparr>, \<lparr>x = - 84, y = - 96\<rparr>],
        bestDist = Some 0,
        bestPoints = naturalBias ''l_arm_chain'' ?cd 3 [30, 25] \<lparr>x = - 84, y = - 96\<rparr>
           [\<lparr>x = - 54, y = - 71\<rparr>, \<lparr>x = - 84, y = - 71\<rparr>, \<lparr>x = - 84, y = - 96\<rparr>],
        randomCalls = 0,
        evaluated = [naturalBias ''l_arm_chain'' ?cd 3 [30, 25] \<lparr>x = - 84, y = - 96\<rparr>
           [\<lparr>x = - 54, y = - 71\<rparr>, \<lparr>x = - 84, y = - 71\<rparr>, \<lparr>x = - 84, y = - 96\<rparr>]]\<rparr>"
    using bitruvius_l_arm_best [of random] by simp
  from solveIK_Advanced_extract [OF bitruvius_lookups(1) len best]
  have "solveIK_Advanced BITRUVIUS_DATA random ''l_arm_chain'' (- 84) (- 96) 0 (0, 0) [?rots] =
        bindE (foldE (extractStep BITRUVIUS_DATA ?js 0 (0, 0)
            (naturalBias ''l_arm_chain'' ?cd 3 [30, 25] \<lparr>x = - 84, y = - 96\<rparr>
              [\<lparr>x = - 54, y = - 71\<rparr>, \<lparr>x = - 84, y = - 71\<rparr>, \<lparr>x = - 84, y = - 96\<rparr>]) 1)
          [0..<length ?js - 1] [?rots, ?rots]) (\<lambda>objs'. Inr (1, objs'))"
    by simp
  then show ?thesis using ex by (metis bindE_Inr)
qed


section \<open>A solve that measures fifty configurations\<close>

text \<open>
  The chain of \<open>reachData\<close>: the base at the origin, the tip at \<open>(100, 0)\<close>, no rotations
  given, the target at \<open>(0, 50)\<close>.  The first pass turns the segment onto the ray to the
  target, and every later pass leaves it there, 50 away from the target.
\<close>

lemma hypot_zero_left: "hypot 0 b = \<bar>b\<bar>"
  by (simp add: hypot_def)













lemma normA_90: "normA 90 = 90"
  by (simp add: normA_def js_rem_def js_trunc_def)

lemma normA_minus_180: "normA (- 180) = - 180"
proof -
  have "js_rem (- 180) 360 = - 180" by (simp add: js_rem_def js_trunc_def ceiling_def)
  moreover have "js_rem 360 360 = 0" by (simp add: js_rem_def js_trunc_def)
  ultimately show ?thesis by (simp add: normA_def)
qed

lemma r2d_quarter: "r2d (atan2 100 0) = 90" "r2d (atan2 10 0) = 90" "r2d (atan2 (- 10) 0) = - 90"
  by (simp_all add: r2d_def atan2_def)




section \<open>What the returned map keeps\<close>

text \<open>
  On the left arm of the repository's skeleton the solve returns a second object and leaves
  the caller's map as it was; in the returned map the wrist (the effector) and the head
  (outside the chain) keep their rotations.  For the chain id \<open>tail_chain\<close>, which the
  skeleton does not have, the call returns its argument.
\<close>

theorem solveIK_Advanced_frame_witness:
  "(\<exists>res objs'.
      solveIK_Advanced BITRUVIUS_DATA (\<lambda>n. 0) ''l_arm_chain'' (- 84) (- 96) 0 (0, 0)
        [[''head'' \<mapsto> 5, ''l_elbow'' \<mapsto> 90, ''l_wrist'' \<mapsto> 10]] = Inr (res, objs') \<and>
      res = 1 \<and> length objs' = 2 \<and>
      objs' ! 0 = [''head'' \<mapsto> 5, ''l_elbow'' \<mapsto> 90, ''l_wrist'' \<mapsto> 10] \<and>
      (objs' ! res) ''head'' = Some 5 \<and>
      (objs' ! res) ''l_wrist'' = Some 10) \<and>
   (\<exists>res objs'.
      solveIK_Advanced BITRUVIUS_DATA (\<lambda>n. 0) ''tail_chain'' 10 20 0 (0, 0)
        [[''head'' \<mapsto> 5]] = Inr (res, objs') \<and>
      js_get (IK_CHAINS BITRUVIUS_DATA) ''tail_chain'' = Undefined \<and>
      res = 0 \<and> objs' = [[''head'' \<mapsto> 5]])"
proof -
  let ?cd = "\<lparr>joints = [''l_shoulder'', ''l_elbow'', ''l_wrist''],
              stretchRatio = Some 1.1, curveStrength = Some 0.5\<rparr>"
  let ?rots = "[''head'' \<mapsto> 5, ''l_elbow'' \<mapsto> 90, ''l_wrist'' \<mapsto> (10::real)]"
  obtain res objs' where
    r: "solveIK_Advanced BITRUVIUS_DATA (\<lambda>n. 0) ''l_arm_chain'' (- 84) (- 96) 0 (0, 0) [?rots]
          = Inr (res, objs')"
    using bitruvius_l_arm_solve [of "\<lambda>n. 0"] by blast
  have valid: "0 < length [?rots]" by simp
  note th = solveIK_Advanced_frame [OF r valid]
  have keep: "objs' ! 0 = [?rots] ! 0" by (rule th [THEN conjunct2, THEN conjunct1])
  note c = th [THEN conjunct2, THEN conjunct2, THEN conjunct2, rule_format,
              OF bitruvius_lookups(1)]
  have len: "2 \<le> length (joints ?cd)" by simp
  have f12: "res = 1" "length objs' = 2"
    using c [THEN conjunct2, THEN conjunct1, rule_format, OF len] by simp_all
  have "(objs' ! res) ''head'' = ([?rots] ! 0) ''head''"
    by (rule c [THEN conjunct2, THEN conjunct2, THEN conjunct2, THEN conjunct1, rule_format])
       simp
  then have f3: "(objs' ! res) ''head'' = Some 5" by simp
  have "(objs' ! res) (last (joints ?cd)) = ([?rots] ! 0) (last (joints ?cd))"
    by (rule c [THEN conjunct2, THEN conjunct2, THEN conjunct2, THEN conjunct2, rule_format])
       simp
  then have f4: "(objs' ! res) ''l_wrist'' = Some 10" by simp
  note f = f12 f3 f4
  have P1: "\<exists>res objs'.
      solveIK_Advanced BITRUVIUS_DATA (\<lambda>n. 0) ''l_arm_chain'' (- 84) (- 96) 0 (0, 0) [?rots]
        = Inr (res, objs') \<and>
      res = 1 \<and> length objs' = 2 \<and> objs' ! 0 = ?rots \<and>
      (objs' ! res) ''head'' = Some 5 \<and> (objs' ! res) ''l_wrist'' = Some 10"
    using r f keep by simp
  have u: "js_get (IK_CHAINS BITRUVIUS_DATA) ''tail_chain'' = Undefined"
    by (simp add: js_get_def BITRUVIUS_DATA_def Object_prototype_def)
  then have r2: "solveIK_Advanced BITRUVIUS_DATA (\<lambda>n. 0) ''tail_chain'' 10 20 0 (0, 0)
        [[''head'' \<mapsto> 5]] = Inr (0, [[''head'' \<mapsto> 5]])"
    by (simp add: solveIK_Advanced_def)
  have valid2: "0 < length [[''head'' \<mapsto> (5::real)]]" by simp
  have "(0::nat) = 0 \<and> [[''head'' \<mapsto> (5::real)]] = [[''head'' \<mapsto> 5]]"
    by (rule solveIK_Advanced_frame [OF r2 valid2, THEN conjunct2, THEN conjunct2,
          THEN conjunct1, rule_format, OF u])
  with r2 u have P2: "\<exists>res objs'.
      solveIK_Advanced BITRUVIUS_DATA (\<lambda>n. 0) ''tail_chain'' 10 20 0 (0, 0)
        [[''head'' \<mapsto> 5]] = Inr (res, objs') \<and>
      js_get (IK_CHAINS BITRUVIUS_DATA) ''tail_chain'' = Undefined \<and>
      res = 0 \<and> objs' = [[''head'' \<mapsto> 5]]"
    by blast
  show ?thesis using P1 P2 by (intro conjI)
qed

text \<open>The chain of \<open>ringData\<close>, with the hub rotated by 90 degrees and the target at the hub.\<close>

lemma ring_lookups:
  "IK_CHAINS ringData ''ring'' =
     Some \<lparr>joints = [''hub'', ''rim'', ''hub''], stretchRatio = None, curveStrength = None\<rparr>"
  "jointParent ringData ''hub'' = Inr None"
  "jointParent ringData ''rim'' = Inr (Some ''hub'')"
  "js_get (JOINT_LIMITS ringData) ''hub'' = Own \<lparr>lim_min = 0, lim_max = 45\<rparr>"
  "js_get (JOINT_LIMITS ringData) ''rim'' = Undefined"
  by (simp_all add: ringData_def jointParent_def js_get_def Object_prototype_def)

lemma ring_points:
  "buildChainPoints ringData [''hub'', ''rim'', ''hub''] [''hub'' \<mapsto> 90] (0, 0) =
     Inr [\<lparr>x = 0, y = 0\<rparr>, \<lparr>x = 0, y = 10\<rparr>, \<lparr>x = 0, y = 0\<rparr>]"
proof -
  have p: "ancestorPath ringData (Some ''hub'') [] = Some [''hub'']"
          "ancestorPath ringData (Some ''rim'') [] = Some [''hub'', ''rim'']"
    by (simp_all add: ancestorPath.simps ringData_def js_get_def)
  show ?thesis
    unfolding buildChainPoints_def mapE.simps computeWorld_def p
    by (simp add: computeWorld_step_def jointPivot_def js_rotation_def js_get_def
          Object_prototype_def ringData_def d2r_def)
qed

lemma ring_lengths: "buildChainLengths ringData [''hub'', ''rim'', ''hub''] = Inr [10, 0]"
  by (simp add: buildChainLengths_def jointPivot_def js_get_def ringData_def hypot_zero_right
        upt_rec)

lemma ring_best:
  "solveBest ringData random ''ring''
     \<lparr>joints = [''hub'', ''rim'', ''hub''], stretchRatio = None, curveStrength = None\<rparr> 0 0
     [''hub'' \<mapsto> 90] (0, 0) =
   Inr \<lparr>chainPoints = [\<lparr>x = 0, y = 0\<rparr>, \<lparr>x = 0, y = 10\<rparr>, \<lparr>x = 0, y = 0\<rparr>],
        bestDist = Some 0,
        bestPoints = [\<lparr>x = 0, y = 0\<rparr>, \<lparr>x = 0, y = 10\<rparr>, \<lparr>x = 0, y = 0\<rparr>],
        randomCalls = 0,
        evaluated = [[\<lparr>x = 0, y = 0\<rparr>, \<lparr>x = 0, y = 10\<rparr>, \<lparr>x = 0, y = 0\<rparr>]]\<rparr>"
proof -
  let ?cd = "\<lparr>joints = [''hub'', ''rim'', ''hub''], stretchRatio = None, curveStrength = None\<rparr>"
  let ?P = "[\<lparr>x = 0, y = 0\<rparr>, \<lparr>x = 0, y = 10\<rparr>, \<lparr>x = 0, y = 0\<rparr>] :: Vector2 list"
  let ?T = "\<lparr>x = 0, y = 0\<rparr> :: Vector2"
  have t: "softReachTarget ?cd (totalLength [10, 0]) \<lparr>x = 0, y = 0\<rparr> \<lparr>x = 0, y = 0\<rparr> = ?T"
    by (simp add: softReachTarget_def totalLength_def js_or_def Let_def hypot_zero_left)
  have names: "\<not> sublist ''leg'' ''ring''" "\<not> sublist ''arm'' ''ring''"
    by (simp_all add: sublist_Cons_right)
  have nb: "naturalBias ''ring'' ?cd 3 [10, 0] ?T ?P = ?P"
    by (simp add: naturalBias_def names)
  have d: "effectorDist 3 ?T ?P = 0" by (simp add: effectorDist_def hypot_def)
  have fifty: "(50::nat) = Suc 49" by simp
  have loop: "solveLoop 50 0 ringData random [''hub'', ''rim'', ''hub''] [10, 0] [''hub'' \<mapsto> 90]
           (0, 0) 3 ?T \<lparr>x = 0, y = 0\<rparr>
           \<lparr>chainPoints = ?P, bestDist = None, bestPoints = ?P, randomCalls = 0, evaluated = []\<rparr>
        = Inr \<lparr>chainPoints = ?P, bestDist = Some 0, bestPoints = ?P, randomCalls = 0,
               evaluated = [?P]\<rparr>"
    unfolding fifty by (subst solveLoop_break) (use d in simp_all)
  have j: "joints ?cd = [''hub'', ''rim'', ''hub'']" by simp
  have len3: "length ?P = 3" by simp
  have nth0: "?P ! 0 = \<lparr>x = 0, y = 0\<rparr>" by simp
  show ?thesis
    by (simp only: solveBest_def Let_def j ring_points bindE_Inr ring_lengths len3 nth0 t nb loop)
qed

lemma ring_solve:
  "solveIK_Advanced ringData random ''ring'' 0 0 0 (0, 0) [[''hub'' \<mapsto> 90]] =
     Inr (1, [[''hub'' \<mapsto> 90], [''hub'' \<mapsto> 45, ''rim'' \<mapsto> - 180]])"
proof -
  let ?cd = "\<lparr>joints = [''hub'', ''rim'', ''hub''], stretchRatio = None, curveStrength = None\<rparr>"
  let ?P = "[\<lparr>x = 0, y = 0\<rparr>, \<lparr>x = 0, y = 10\<rparr>, \<lparr>x = 0, y = 0\<rparr>] :: Vector2 list"
  have two: "[0..<length [''hub'', ''rim'', ''hub''] - 1] = [0, 1]" by (simp add: upt_rec)
  have m: "[''hub'' \<mapsto> 90, ''hub'' \<mapsto> 45, ''rim'' \<mapsto> - 180] = [''hub'' \<mapsto> 45, ''rim'' \<mapsto> - (180::real)]"
    by (rule ext) simp
  have e: "foldE (extractStep ringData [''hub'', ''rim'', ''hub''] 0 (0, 0) ?P 1)
             [0..<length [''hub'', ''rim'', ''hub''] - 1] [[''hub'' \<mapsto> 90], [''hub'' \<mapsto> 90]] =
           Inr [[''hub'' \<mapsto> 90], [''hub'' \<mapsto> 45, ''rim'' \<mapsto> - 180]]"
    unfolding two
    by (simp add: extractStep_def Let_def ring_lookups r2d_quarter normA_90 normA_minus_180
          clamp_def m)
  have len: "2 \<le> length (joints ?cd)" by simp
  have best: "solveBest ringData random ''ring'' ?cd 0 0 ([[''hub'' \<mapsto> 90]] ! 0) (0, 0) =
     Inr \<lparr>chainPoints = ?P, bestDist = Some 0, bestPoints = ?P, randomCalls = 0,
          evaluated = [?P]\<rparr>"
    using ring_best [of random] by simp
  show ?thesis
    unfolding solveIK_Advanced_extract [OF ring_lookups(1) len best]
    using e by simp
qed

text \<open>
  C10 as stated fails in two ways.  For a chain id that the skeleton does not have, the
  call returns the reference it was given, not a fresh copy: the only object after the call
  is the caller's map.  And in \<open>ringData\<close> the chain \<open>ring\<close> lists its effector, the hub, also
  as its first joint: the hub enters with 90 degrees and the returned map has 45 for it.
\<close>

theorem solveIK_Advanced_frame_counterexample:
  "solveIK_Advanced BITRUVIUS_DATA zeroRandom ''tail_chain'' 10 20 0 (0, 0) [[''head'' \<mapsto> 5]] =
     Inr (0, [[''head'' \<mapsto> 5]]) \<and>
   IK_CHAINS ringData ''ring'' =
     Some \<lparr>joints = [''hub'', ''rim'', ''hub''], stretchRatio = None, curveStrength = None\<rparr> \<and>
   last [''hub'', ''rim'', ''hub''] = ''hub'' \<and>
   solveIK_Advanced ringData zeroRandom ''ring'' 0 0 0 (0, 0) [[''hub'' \<mapsto> 90]] =
     Inr (1, [[''hub'' \<mapsto> 90], [''hub'' \<mapsto> 45, ''rim'' \<mapsto> - 180]]) \<and>
   ([[''hub'' \<mapsto> 90], [''hub'' \<mapsto> 45, ''rim'' \<mapsto> - 180]] ! 1) ''hub'' \<noteq>
     ([[''hub'' \<mapsto> (90::real)]] ! 0) ''hub''"
proof -
  have "js_get (IK_CHAINS BITRUVIUS_DATA) ''tail_chain'' = Undefined"
    by (simp add: js_get_def BITRUVIUS_DATA_def Object_prototype_def)
  then have a: "solveIK_Advanced BITRUVIUS_DATA zeroRandom ''tail_chain'' 10 20 0 (0, 0)
        [[''head'' \<mapsto> 5]] = Inr (0, [[''head'' \<mapsto> 5]])"
    by (simp add: solveIK_Advanced_def)
  show ?thesis using a ring_lookups(1) ring_solve [of zeroRandom] by simp
qed

section \<open>Removing a joint\<close>

lemma new_heap_links:
  "children (JointChain_new_heap ''Root'') = [''Joint_1'']"
  "parent (JointChain_new_heap ''Root'') = None"
  "children (JointChain_new_heap ''Joint_1'') = [''Joint_2'']"
  "parent (JointChain_new_heap ''Joint_1'') = Some ''Root''"
  "children (JointChain_new_heap ''Joint_2'') = [''EndEffector'']"
  "parent (JointChain_new_heap ''Joint_2'') = Some ''Joint_1''"
  "children (JointChain_new_heap ''EndEffector'') = []"
  "parent (JointChain_new_heap ''EndEffector'') = Some ''Joint_2''"
  by (simp_all add: JointChain_new_heap_def Joint_addChild_def new_Joint_def Let_def)

lemma count_new_heap: "Joint_getJointCount 10 JointChain_new_heap ''Root'' = Inr 4"
proof -
  show ?thesis by (simp add: eval_nat_numeral new_heap_links)
qed

text \<open>
  C4 on the chain that the constructor builds (Root, Joint_1, Joint_2, EndEffector; four
  joints).  Removing Joint_1 detaches it from the root, which sets its \<open>parent\<close> to
  \<open>null\<close>; the reattachment then reads \<open>joint.parent.addChild\<close> and throws a \<open>TypeError\<close>
  at the first child.  Joint_2 is not reattached (its parent is still Joint_1), and the
  joint count of the tree drops from four to one, not to three.  Removing the childless
  EndEffector goes through and leaves three joints.
\<close>

theorem removeJoint_default_chain:
  "Joint_getJointCount 10 JointChain_new_heap ''Root'' = Inr 4 \<and>
   fst (JointChain_removeJoint JointChain_new ''Joint_1'' JointChain_new_heap) = Some TypeError \<and>
   children (snd (JointChain_removeJoint JointChain_new ''Joint_1'' JointChain_new_heap) ''Root'') = [] \<and>
   parent (snd (JointChain_removeJoint JointChain_new ''Joint_1'' JointChain_new_heap) ''Joint_2'') = Some ''Joint_1'' \<and>
   Joint_getJointCount 10 (snd (JointChain_removeJoint JointChain_new ''Joint_1'' JointChain_new_heap)) ''Root'' = Inr 1 \<and>
   fst (JointChain_removeJoint JointChain_new ''EndEffector'' JointChain_new_heap) = None \<and>
   Joint_getJointCount 10 (snd (JointChain_removeJoint JointChain_new ''EndEffector'' JointChain_new_heap)) ''Root'' = Inr 3"
proof -
  have r1: "JointChain_removeJoint JointChain_new ''Joint_1'' JointChain_new_heap =
        (Some TypeError, Joint_removeChild ''Root'' ''Joint_1'' JointChain_new_heap)"
    by (simp add: JointChain_removeJoint_def JointChain_new_def new_heap_links
          Joint_removeChild_def Let_def)
  have r3: "JointChain_removeJoint JointChain_new ''EndEffector'' JointChain_new_heap =
        (None, Joint_removeChild ''Joint_2'' ''EndEffector'' JointChain_new_heap)"
    by (simp add: JointChain_removeJoint_def JointChain_new_def new_heap_links
          Joint_removeChild_def Let_def)
  have c1: "children (Joint_removeChild ''Root'' ''Joint_1'' JointChain_new_heap ''Root'') = []"
    "parent (Joint_removeChild ''Root'' ''Joint_1'' JointChain_new_heap ''Joint_2'') = Some ''Joint_1''"
    by (simp_all add: Joint_removeChild_def new_heap_links Let_def)
  have n1: "Joint_getJointCount 10 (Joint_removeChild ''Root'' ''Joint_1'' JointChain_new_heap) ''Root'' = Inr 1"
    by (simp add: eval_nat_numeral c1)
  have c3: "children (Joint_removeChild ''Joint_2'' ''EndEffector'' JointChain_new_heap ''Root'') = [''Joint_1'']"
    "children (Joint_removeChild ''Joint_2'' ''EndEffector'' JointChain_new_heap ''Joint_1'') = [''Joint_2'']"
    "children (Joint_removeChild ''Joint_2'' ''EndEffector'' JointChain_new_heap ''Joint_2'') = []"
    by (simp_all add: Joint_removeChild_def new_heap_links Let_def)
  have n3: "Joint_getJointCount 10 (Joint_removeChild ''Joint_2'' ''EndEffector'' JointChain_new_heap) ''Root'' = Inr 3"
    by (simp add: eval_nat_numeral c3)
  show ?thesis by (simp add: count_new_heap r1 r3 c1 n1 n3)
qed

section \<open>Invalid chain shapes\<close>

lemma traverse_new_heap:
  "JointChain_getAllJointsInOrder 10 JointChain_new JointChain_new_heap =
     Inr [''Root'', ''Joint_1'', ''Joint_2'', ''EndEffector'']"
  by (simp add: JointChain_getAllJointsInOrder_def JointChain_new_def eval_nat_numeral
        new_heap_links)

text \<open>
  C6.  When the ordered joint list of the chain does not have exactly two joints,
  \<open>solveAnalytical\<close> returns with the heap, and so every joint, as it was.
  \<open>solveIK_Advanced\<close> returns the reference it was given, with no object changed or added,
  when the chain has fewer than two joints, and when the skeleton has no chain of that id
  and the id is not the name of a member that objects inherit.  When the skeleton has no
  chain of that id and the id is such a name (\<open>toString\<close>, \<open>constructor\<close>, ...), the guard
  \<open>if (!chainDef) return currentRots\<close> does not catch it and the call throws a \<open>TypeError\<close>.
\<close>

theorem invalid_chain_shape:
  "(JointChain_getAllJointsInOrder stack chain h = Inr js \<and> length js \<noteq> 2 \<longrightarrow>
      JointChain_solveAnalytical stack chain endEffector h = Inr h) \<and>
   (IK_CHAINS data chainId = None \<and> chainId \<notin> set Object_prototype \<longrightarrow>
      solveIK_Advanced data random chainId targetX targetY currentRots center objs
        = Inr (currentRots, objs)) \<and>
   (IK_CHAINS data chainId = Some chainDef \<and> length (joints chainDef) < 2 \<longrightarrow>
      solveIK_Advanced data random chainId targetX targetY currentRots center objs
        = Inr (currentRots, objs)) \<and>
   (IK_CHAINS data chainId = None \<and> chainId \<in> set Object_prototype \<longrightarrow>
      solveIK_Advanced data random chainId targetX targetY currentRots center objs
        = Inl TypeError)"
proof (intro conjI impI)
  assume "JointChain_getAllJointsInOrder stack chain h = Inr js \<and> length js \<noteq> 2"
  then show "JointChain_solveAnalytical stack chain endEffector h = Inr h"
    by (simp add: JointChain_solveAnalytical_def)
next
  assume "IK_CHAINS data chainId = None \<and> chainId \<notin> set Object_prototype"
  then have "js_get (IK_CHAINS data) chainId = Undefined" by (simp add: js_get_Undefined_iff)
  then show "solveIK_Advanced data random chainId targetX targetY currentRots center objs
        = Inr (currentRots, objs)"
    by (simp add: solveIK_Advanced_def)
next
  assume "IK_CHAINS data chainId = Some chainDef \<and> length (joints chainDef) < 2"
  then have "js_get (IK_CHAINS data) chainId = Own chainDef" "length (joints chainDef) < 2"
    by (simp_all add: js_get_Own_iff)
  then show "solveIK_Advanced data random chainId targetX targetY currentRots center objs
        = Inr (currentRots, objs)"
    by (simp add: solveIK_Advanced_def)
next
  assume "IK_CHAINS data chainId = None \<and> chainId \<in> set Object_prototype"
  then have "js_get (IK_CHAINS data) chainId = Inherited" by (simp add: js_get_Inherited_iff)
  then show "solveIK_Advanced data random chainId targetX targetY currentRots center objs
        = Inl TypeError"
    by (simp add: solveIK_Advanced_def)
qed

text \<open>
  The chain that the constructor builds has four joints; the repository's skeleton has no
  chain \<open>tail_chain\<close> and none called \<open>toString\<close>; a skeleton with a one-joint chain
  \<open>stub\<close>.  The call with the chain id \<open>toString\<close> throws.
\<close>

theorem invalid_chain_shape_witness:
  "JointChain_getAllJointsInOrder 10 JointChain_new JointChain_new_heap =
     Inr [''Root'', ''Joint_1'', ''Joint_2'', ''EndEffector''] \<and>
   JointChain_solveAnalytical 10 JointChain_new ''EndEffector'' JointChain_new_heap =
     Inr JointChain_new_heap \<and>
   IK_CHAINS BITRUVIUS_DATA ''tail_chain'' = None \<and>
   solveIK_Advanced BITRUVIUS_DATA zeroRandom ''tail_chain'' 10 20 0 (0, 0) [[''head'' \<mapsto> 5]] =
     Inr (0, [[''head'' \<mapsto> 5]]) \<and>
   solveIK_Advanced
     (BITRUVIUS_DATA\<lparr>IK_CHAINS := [''stub'' \<mapsto>
         \<lparr>joints = [''head''], stretchRatio = None, curveStrength = None\<rparr>]\<rparr>)
     zeroRandom ''stub'' 10 20 0 (0, 0) [[''head'' \<mapsto> 5]] = Inr (0, [[''head'' \<mapsto> 5]]) \<and>
   IK_CHAINS BITRUVIUS_DATA ''toString'' = None \<and>
   solveIK_Advanced BITRUVIUS_DATA zeroRandom ''toString'' 10 20 0 (0, 0) [[''head'' \<mapsto> 5]] =
     Inl TypeError"
proof -
  have a: "JointChain_solveAnalytical 10 JointChain_new ''EndEffector'' JointChain_new_heap =
     Inr JointChain_new_heap"
    by (rule invalid_chain_shape [where js = "[''Root'', ''Joint_1'', ''Joint_2'', ''EndEffector'']",
          THEN conjunct1, THEN mp])
       (simp add: traverse_new_heap)
  have n: "IK_CHAINS BITRUVIUS_DATA ''tail_chain'' = None"
    by (simp add: BITRUVIUS_DATA_def)
  have b: "solveIK_Advanced BITRUVIUS_DATA zeroRandom ''tail_chain'' 10 20 0 (0, 0)
             [[''head'' \<mapsto> 5]] = Inr (0, [[''head'' \<mapsto> 5]])"
    by (rule invalid_chain_shape [THEN conjunct2, THEN conjunct1, THEN mp])
       (simp add: n Object_prototype_def)
  have c: "solveIK_Advanced
     (BITRUVIUS_DATA\<lparr>IK_CHAINS := [''stub'' \<mapsto>
         \<lparr>joints = [''head''], stretchRatio = None, curveStrength = None\<rparr>]\<rparr>)
     zeroRandom ''stub'' 10 20 0 (0, 0) [[''head'' \<mapsto> 5]] = Inr (0, [[''head'' \<mapsto> 5]])"
    by (rule invalid_chain_shape [where
          chainDef = "\<lparr>joints = [''head''], stretchRatio = None, curveStrength = None\<rparr>",
          THEN conjunct2, THEN conjunct2, THEN conjunct1, THEN mp])
       simp
  have t: "IK_CHAINS BITRUVIUS_DATA ''toString'' = None"
    by (simp add: BITRUVIUS_DATA_def)
  have d: "solveIK_Advanced BITRUVIUS_DATA zeroRandom ''toString'' 10 20 0 (0, 0)
             [[''head'' \<mapsto> 5]] = Inl TypeError"
    by (rule invalid_chain_shape [THEN conjunct2, THEN conjunct2, THEN conjunct2, THEN mp])
       (simp add: t Object_prototype_def)
  show ?thesis using traverse_new_heap a n b c t d by simp
qed

section \<open>Joint.updateIK sweep by sweep\<close>

lemma transformPoint_identity: "Matrix3_transformPoint Matrix3_identity p = \<lparr>x = x p, y = y p\<rparr>"
  by (simp add: Matrix3_transformPoint_def Matrix3_identity_def)


lemma Joint_updateIK_visit_other:
  "j \<noteq> current \<Longrightarrow> Joint_updateIK_visit this endEffector tgt h current j = h j"
  by (simp add: Joint_updateIK_visit_def Let_def)

lemma Joint_updateIK_visit_frame:
  "worldTransform (Joint_updateIK_visit this e t h c j) = worldTransform (h j)"
  "length_j (Joint_updateIK_visit this e t h c j) = length_j (h j)"
  "parent (Joint_updateIK_visit this e t h c j) = parent (h j)"
  "ikEnabled (Joint_updateIK_visit this e t h c j) = ikEnabled (h j)"
  "ikWeight (Joint_updateIK_visit this e t h c j) = ikWeight (h j)"
  by (simp_all add: Joint_updateIK_visit_def Let_def)


text \<open>The body of the loop does to the joint it visits what \<open>sweepStep\<close> says.\<close>

lemma Joint_updateIK_visit_sweepStep:
  "Joint_updateIK_visit this e tgt h c = h(c := sweepStep (ikWeight (h this)) e tgt (h c))"
  by (rule ext) (simp add: Joint_updateIK_visit_def sweepStep_def Let_def MathUtils_lerp_def)

text \<open>A path along the parent links depends on the parent links only, and is unique.\<close>

lemma parentPath_cong:
  assumes "\<And>j. parent (g j) = parent (h j)"
  shows "parentPath g cur js = parentPath h cur js"
proof (induction js arbitrary: cur)
  case Nil
  then show ?case by (cases cur) simp_all
next
  case (Cons j js)
  then show ?case by (cases cur) (simp_all add: assms)
qed

lemma parentPath_unique:
  "parentPath h cur js \<Longrightarrow> parentPath h cur ks \<Longrightarrow> js = ks"
proof (induction js arbitrary: cur ks)
  case Nil
  then show ?case by (cases cur; cases ks) simp_all
next
  case (Cons j js)
  then show ?case by (cases cur; cases ks) auto
qed

lemma parentPath_suffix:
  "parentPath h cur (as @ j # bs) \<Longrightarrow> parentPath h (Some j) (j # bs)"
proof (induction as arbitrary: cur)
  case Nil
  then show ?case by (cases cur) simp_all
next
  case (Cons a as)
  then show ?case by (cases cur) auto
qed

lemma parentPath_distinct: "parentPath h cur js \<Longrightarrow> distinct js"
proof (induction js arbitrary: cur)
  case Nil
  then show ?case by simp
next
  case (Cons j js)
  then obtain c where c: "cur = Some c" "j = c" and rest: "parentPath h (parent (h c)) js"
    by (cases cur) auto
  have "j \<notin> set js"
  proof
    assume "j \<in> set js"
    then obtain as bs where s: "js = as @ j # bs" by (auto simp: in_set_conv_decomp)
    from parentPath_suffix [OF rest [unfolded s]] have "parentPath h (Some j) (j # bs)" .
    moreover have "parentPath h (Some j) (j # js)" using Cons.prems c by simp
    ultimately have "j # bs = j # js" by (rule parentPath_unique)
    then show False using s by simp
  qed
  moreover have "distinct js" using Cons.IH [OF rest] .
  ultimately show ?case by simp
qed

text \<open>The loop \<open>while (current)\<close> visits the joints of the path in turn, and ends.\<close>

lemma Joint_updateIK_sweep_path:
  assumes "parentPath h cur js"
  shows "Joint_updateIK_sweep this e tgt h cur =
           Some (fold (\<lambda>c g. Joint_updateIK_visit this e tgt g c) js h)"
  using assms
proof (induction js arbitrary: h cur)
  case Nil
  then have "cur = None" by (cases cur) simp_all
  then show ?case by (simp add: Joint_updateIK_sweep.simps)
next
  case (Cons j js)
  then obtain c where c: "cur = Some c" "j = c" and rest: "parentPath h (parent (h c)) js"
    by (cases cur) auto
  let ?g = "Joint_updateIK_visit this e tgt h c"
  have "parentPath ?g (parent (h c)) js"
    using rest parentPath_cong [of ?g h] by (simp add: Joint_updateIK_visit_frame)
  from Cons.IH [OF this]
  have "Joint_updateIK_sweep this e tgt ?g (parent (h c)) =
          Some (fold (\<lambda>c g. Joint_updateIK_visit this e tgt g c) js ?g)" .
  then show ?case
    unfolding c by (subst Joint_updateIK_sweep.simps) (simp add: Joint_updateIK_visit_frame)
qed

lemma fold_visit_sweepHeap:
  assumes "distinct js"
  shows "fold (\<lambda>c g. Joint_updateIK_visit this e tgt g c) js h = sweepHeap this js e tgt h"
  using assms
proof (induction js arbitrary: h)
  case Nil
  then show ?case by (simp add: sweepHeap_def)
next
  case (Cons c js)
  let ?g = "Joint_updateIK_visit this e tgt h c"
  have IH: "fold (\<lambda>c g. Joint_updateIK_visit this e tgt g c) js ?g = sweepHeap this js e tgt ?g"
    using Cons by simp
  have "sweepHeap this js e tgt ?g = sweepHeap this (c # js) e tgt h"
  proof (rule ext)
    fix j
    show "sweepHeap this js e tgt ?g j = sweepHeap this (c # js) e tgt h j"
    proof (cases "j = c")
      case True
      then have "j \<notin> set js" using Cons.prems by simp
      then show ?thesis
        using True by (simp add: sweepHeap_def Joint_updateIK_visit_sweepStep)
    next
      case False
      then show ?thesis
        by (simp add: sweepHeap_def Joint_updateIK_visit_other Joint_updateIK_visit_frame)
    qed
  qed
  then show ?case using IH by simp
qed

lemma sweepHeap_frame:
  "parent (sweepHeap this js e tgt h j) = parent (h j)"
  "worldTransform (sweepHeap this js e tgt h j) = worldTransform (h j)"
  "length_j (sweepHeap this js e tgt h j) = length_j (h j)"
  by (simp_all add: sweepHeap_def sweepStep_def Let_def)

text \<open>
  \<open>updateIK\<close> does not update the transforms, so the convergence check after a sweep finds
  the end effector where it was: every iteration runs.
\<close>

lemma Joint_updateIK_loop_sweeps:
  assumes "parentPath h (Some this) js"
      and "\<not> Vector2_distance (Joint_getEndEffectorPosition (h this)) tgt < thr"
  shows "Joint_updateIK_loop k this e tgt thr h = Inr ((sweepHeap this js e tgt ^^ k) h)"
  using assms
proof (induction k arbitrary: h)
  case 0
  then show ?case by simp
next
  case (Suc k)
  let ?g = "sweepHeap this js e tgt h"
  have sw: "Joint_updateIK_sweep this e tgt h (Some this) = Some ?g"
    using Joint_updateIK_sweep_path [OF Suc.prems(1)]
      fold_visit_sweepHeap [OF parentPath_distinct [OF Suc.prems(1)]]
    by simp
  have pos: "Joint_getEndEffectorPosition (?g this) = Joint_getEndEffectorPosition (h this)"
    by (simp add: Joint_getEndEffectorPosition_def sweepHeap_frame)
  have p: "parentPath ?g (Some this) js"
    using Suc.prems(1) parentPath_cong [of ?g h] by (simp add: sweepHeap_frame)
  have far: "\<not> Vector2_distance (Joint_getEndEffectorPosition (?g this)) tgt < thr"
    using Suc.prems(2) pos by simp
  have "Joint_updateIK_loop (Suc k) this e tgt thr h = Joint_updateIK_loop k this e tgt thr ?g"
    using far by (simp add: sw Let_def)
  also have "\<dots> = Inr ((sweepHeap this js e tgt ^^ k) ?g)" by (rule Suc.IH [OF p far])
  finally show ?case by (simp add: funpow_swap1)
qed

lemma Joint_updateIK_sweepHeap:
  assumes "parentPath h (Some this) js"
      and "ikEnabled (h this)" and "parent (h this) \<noteq> None"
      and "\<not> Vector2_distance (Joint_getEndEffectorPosition (h this)) tgt < thr"
  shows "Joint_updateIK this tgt its thr h =
           Inr ((sweepHeap this js (Joint_getEndEffectorPosition (h this)) tgt ^^ its) h)"
  using assms by (auto simp: Joint_updateIK_def Let_def Joint_updateIK_loop_sweeps)


section \<open>The analytical solver on lengths 100 and 80, target at distance 120\<close>

lemma sqrt_16: "sqrt 16 = 4"
  using real_sqrt_abs [of 4] by simp

lemma sqrt_64: "sqrt 64 = 8"
  using real_sqrt_abs [of 8] by simp

lemma sqrt_63: "sqrt 63 = 3 * sqrt 7"
proof -
  have "sqrt 63 = sqrt (9 * 7)" by simp
  also have "\<dots> = sqrt 9 * sqrt 7" by (rule real_sqrt_mult)
  also have "sqrt 9 = 3" using real_sqrt_abs [of 3] by simp
  finally show ?thesis .
qed

lemma cos_a1: "cos (arccos (3 / 4)) = 3 / 4"
  by simp

lemma cos_a2: "cos (arccos (- (1 / 8))) = - (1 / 8)"
  by simp

lemma sin_a1: "sin (arccos (3 / 4)) = sqrt 7 / 4"
proof -
  have "sin (arccos (3 / 4)) = sqrt (1 - (3 / 4)\<^sup>2)" by (rule sin_arccos) simp_all
  also have "1 - (3 / 4 :: real)\<^sup>2 = 7 / 16" by (simp add: power2_eq_square)
  also have "sqrt (7 / 16) = sqrt 7 / 4" by (simp add: real_sqrt_divide sqrt_16)
  finally show ?thesis .
qed

lemma sin_a2: "sin (arccos (- (1 / 8))) = 3 * sqrt 7 / 8"
proof -
  have "sin (arccos (- (1 / 8))) = sqrt (1 - (- (1 / 8))\<^sup>2)" by (rule sin_arccos) simp_all
  also have "1 - (- (1 / 8) :: real)\<^sup>2 = 63 / 64" by (simp add: power2_eq_square)
  also have "sqrt (63 / 64) = 3 * sqrt 7 / 8" by (simp add: real_sqrt_divide sqrt_64 sqrt_63)
  finally show ?thesis .
qed

lemma cos_a1_a2: "cos (arccos (3 / 4) + arccos (- (1 / 8))) = - (3 / 4)"
proof -
  have "sqrt 7 * sqrt 7 = 7" by simp
  then show ?thesis
    unfolding cos_add cos_a1 cos_a2 sin_a1 sin_a2 by (simp add: field_simps)
qed

lemma sin_a1_a2: "sin (arccos (3 / 4) + arccos (- (1 / 8))) = sqrt 7 / 4"
  unfolding sin_add cos_a1 cos_a2 sin_a1 sin_a2 by (simp add: field_simps)

lemma twoJoint_links:
  "children (twoJoint_heap ''Root'') = [''Tip'']" "children (twoJoint_heap ''Tip'') = []"
  "parent (twoJoint_heap ''Root'') = None" "parent (twoJoint_heap ''Tip'') = Some ''Root''"
  "length_j (twoJoint_heap ''Root'') = 100" "length_j (twoJoint_heap ''Tip'') = 80"
  "worldTransform (twoJoint_heap ''Root'') = Matrix3_identity"
  "angleWrapping (twoJoint_heap ''Root'')" "angleWrapping (twoJoint_heap ''Tip'')"
  "position (twoJoint_heap ''Root'') = \<lparr>x = 0, y = 0\<rparr>"
  "position (twoJoint_heap ''Tip'') = \<lparr>x = 100, y = 0\<rparr>"
  by (simp_all add: twoJoint_heap_def Joint_addChild_def new_Joint_def Let_def)

lemma twoJoint_order:
  "JointChain_getAllJointsInOrder 10 twoJoint_chain twoJoint_heap = Inr [''Root'', ''Tip'']"
  by (simp add: JointChain_getAllJointsInOrder_def twoJoint_chain_def eval_nat_numeral
        twoJoint_links)

lemma twoJoint_distance:
  "Vector2_distance (Joint_getWorldPosition (twoJoint_heap ''Root'')) (target twoJoint_chain) = 120"
proof -
  have "sqrt (120 * 120) = (120::real)" using real_sqrt_abs2 [of 120] by simp
  then show ?thesis
    by (simp add: Joint_getWorldPosition_def twoJoint_links transformPoint_identity
        twoJoint_chain_def Vector2_distance_def Vector2_magnitude_def Vector2_subtract_def)
qed

lemma twoJoint_solveAnalytical:
  "JointChain_solveAnalytical 10 twoJoint_chain ''Tip'' twoJoint_heap =
     Inr (twoJoint_heap
           (''Root'' := (twoJoint_heap ''Root'')\<lparr>targetAngle := arccos (3 / 4)\<rparr>,
            ''Tip'' := (twoJoint_heap ''Tip'')\<lparr>targetAngle := arccos (- (1 / 8))\<rparr>))"
proof -
  have p: "Joint_getWorldPosition (twoJoint_heap ''Root'') = \<lparr>x = 0, y = 0\<rparr>"
    by (simp add: Joint_getWorldPosition_def twoJoint_links transformPoint_identity)
  have d: "Vector2_distance \<lparr>x = 0, y = 0\<rparr> \<lparr>x = 120, y = 0\<rparr> = 120"
    using twoJoint_distance by (simp add: p twoJoint_chain_def)
  have c1: "MathUtils_clamp (3 / 4) (- 1) 1 = 3 / 4" by (simp add: MathUtils_clamp_def)
  have c2: "MathUtils_clamp (- (1 / 8)) (- 1) 1 = - (1 / 8)" by (simp add: MathUtils_clamp_def)
  have b: "atan2 0 120 = 0" by (simp add: atan2_def)
  show ?thesis
    unfolding JointChain_solveAnalytical_def twoJoint_order
    by (simp add: Let_def twoJoint_links p twoJoint_chain_def d c1 c2 b Joint_setAngle_def)
qed


lemma twoJoint_applied_transform:
  "\<exists>h3. Joint_updateTransform 10
          (twoJoint_heap
             (''Root'' := (twoJoint_heap ''Root'')\<lparr>targetAngle := arccos (3 / 4), angle := arccos (3 / 4)\<rparr>,
              ''Tip'' := (twoJoint_heap ''Tip'')\<lparr>targetAngle := arccos (- (1 / 8)),
                                               angle := arccos (- (1 / 8))\<rparr>)) ''Root'' = Inr h3 \<and>
        Joint_getEndEffectorPosition (h3 ''Tip'') = \<lparr>x = 40, y = 20 * sqrt 7\<rparr>"
proof -
  show ?thesis
    apply (simp add: eval_nat_numeral twoJoint_links Let_def)
    apply (simp add: Joint_getEndEffectorPosition_def twoJoint_links Matrix3_multiply_def
        Matrix3_rotation_def Matrix3_translation_def Matrix3_transformPoint_def upt_rec
        sin_a1 sin_a2 Let_def)
    done
qed

text \<open>
  C5 at the configuration it names: root at the origin, lengths 100 and 80, target at
  \<open>(120, 0)\<close>, distance 120.  \<open>solveAnalytical\<close> assigns the base angle plus \<open>arccos (3/4)\<close>
  to the first joint and \<open>arccos (-1/8)\<close> to the second; both the interior angle and the
  offset of the first joint are taken with the positive sign.  With these two angles a
  planar two-segment arm ends at \<open>(15, 45 * sqrt 7)\<close>, at distance 120 from the root but
  not at the target; the transforms that \<open>Joint.updateTransform\<close> computes from these angles
  put the end effector at \<open>(40, 20 * sqrt 7)\<close>.  Neither is the target \<open>(120, 0)\<close>.
\<close>

theorem solveAnalytical_misses_target:
  "JointChain_getAllJointsInOrder 10 twoJoint_chain twoJoint_heap = Inr [''Root'', ''Tip''] \<and>
   length_j (twoJoint_heap ''Root'') = 100 \<and> length_j (twoJoint_heap ''Tip'') = 80 \<and>
   target twoJoint_chain = \<lparr>x = 120, y = 0\<rparr> \<and>
   Vector2_distance (Joint_getWorldPosition (twoJoint_heap ''Root'')) (target twoJoint_chain) = 120 \<and>
   (\<exists>h'. JointChain_solveAnalytical 10 twoJoint_chain ''Tip'' twoJoint_heap = Inr h' \<and>
      targetAngle (h' ''Root'') = arccos (3 / 4) \<and>
      targetAngle (h' ''Tip'') = arccos (- (1 / 8)) \<and>
      100 * cos (targetAngle (h' ''Root''))
        + 80 * cos (targetAngle (h' ''Root'') + targetAngle (h' ''Tip'')) = 15 \<and>
      100 * sin (targetAngle (h' ''Root''))
        + 80 * sin (targetAngle (h' ''Root'') + targetAngle (h' ''Tip'')) = 45 * sqrt 7 \<and>
      (\<exists>h3. Joint_updateTransform 10
               (h'(''Root'' := (h' ''Root'')\<lparr>angle := targetAngle (h' ''Root'')\<rparr>,
                   ''Tip'' := (h' ''Tip'')\<lparr>angle := targetAngle (h' ''Tip'')\<rparr>)) ''Root'' = Inr h3 \<and>
             Joint_getEndEffectorPosition (h3 ''Tip'') = \<lparr>x = 40, y = 20 * sqrt 7\<rparr>)) \<and>
   (15 :: real) \<noteq> 120 \<and> (40 :: real) \<noteq> 120"
proof -
  let ?h' = "twoJoint_heap
           (''Root'' := (twoJoint_heap ''Root'')\<lparr>targetAngle := arccos (3 / 4)\<rparr>,
            ''Tip'' := (twoJoint_heap ''Tip'')\<lparr>targetAngle := arccos (- (1 / 8))\<rparr>)"
  have t: "targetAngle (?h' ''Root'') = arccos (3 / 4)"
          "targetAngle (?h' ''Tip'') = arccos (- (1 / 8))" by simp_all
  have px: "100 * cos (arccos (3 / 4)) + 80 * cos (arccos (3 / 4) + arccos (- (1 / 8))) = 15"
    unfolding cos_a1_a2 cos_a1 by simp
  have py: "100 * sin (arccos (3 / 4)) + 80 * sin (arccos (3 / 4) + arccos (- (1 / 8))) = 45 * sqrt 7"
    unfolding sin_a1_a2 sin_a1 by simp
  have app: "?h'(''Root'' := (?h' ''Root'')\<lparr>angle := targetAngle (?h' ''Root'')\<rparr>,
                 ''Tip'' := (?h' ''Tip'')\<lparr>angle := targetAngle (?h' ''Tip'')\<rparr>) =
             twoJoint_heap
             (''Root'' := (twoJoint_heap ''Root'')\<lparr>targetAngle := arccos (3 / 4), angle := arccos (3 / 4)\<rparr>,
              ''Tip'' := (twoJoint_heap ''Tip'')\<lparr>targetAngle := arccos (- (1 / 8)),
                                               angle := arccos (- (1 / 8))\<rparr>)"
    by (rule ext) simp
  have fk: "\<exists>h3. Joint_updateTransform 10
               (?h'(''Root'' := (?h' ''Root'')\<lparr>angle := targetAngle (?h' ''Root'')\<rparr>,
                   ''Tip'' := (?h' ''Tip'')\<lparr>angle := targetAngle (?h' ''Tip'')\<rparr>)) ''Root'' = Inr h3 \<and>
             Joint_getEndEffectorPosition (h3 ''Tip'') = \<lparr>x = 40, y = 20 * sqrt 7\<rparr>"
    unfolding app by (rule twoJoint_applied_transform)
  have ex: "\<exists>h'. JointChain_solveAnalytical 10 twoJoint_chain ''Tip'' twoJoint_heap = Inr h' \<and>
      targetAngle (h' ''Root'') = arccos (3 / 4) \<and>
      targetAngle (h' ''Tip'') = arccos (- (1 / 8)) \<and>
      100 * cos (targetAngle (h' ''Root''))
        + 80 * cos (targetAngle (h' ''Root'') + targetAngle (h' ''Tip'')) = 15 \<and>
      100 * sin (targetAngle (h' ''Root''))
        + 80 * sin (targetAngle (h' ''Root'') + targetAngle (h' ''Tip'')) = 45 * sqrt 7 \<and>
      (\<exists>h3. Joint_updateTransform 10
               (h'(''Root'' := (h' ''Root'')\<lparr>angle := targetAngle (h' ''Root'')\<rparr>,
                   ''Tip'' := (h' ''Tip'')\<lparr>angle := targetAngle (h' ''Tip'')\<rparr>)) ''Root'' = Inr h3 \<and>
             Joint_getEndEffectorPosition (h3 ''Tip'') = \<lparr>x = 40, y = 20 * sqrt 7\<rparr>)"
    apply (rule exI [of _ ?h'])
    apply (intro conjI)
         apply (rule twoJoint_solveAnalytical)
        apply (rule t(1))
       apply (rule t(2))
      apply (simp only: t px)
     apply (simp only: t py)
    apply (rule fk)
    done
  show ?thesis
    using twoJoint_order twoJoint_links(5,6) twoJoint_distance ex
    by (simp add: twoJoint_chain_def)
qed

section \<open>Two posed chains\<close>

lemma rot0_translation:
  "Matrix3_multiply (Matrix3_rotation 0) (Matrix3_translation a b) = Matrix3_translation a b"
  by (simp add: Matrix3_multiply_def Matrix3_rotation_def Matrix3_translation_def upt_rec)

lemma translation_translation:
  "Matrix3_multiply (Matrix3_translation a b) (Matrix3_translation c d) =
     Matrix3_translation (a + c) (b + d)"
  by (simp add: Matrix3_multiply_def Matrix3_translation_def upt_rec)

lemma transformPoint_translation:
  "Matrix3_transformPoint (Matrix3_translation a b) p = \<lparr>x = x p + a, y = y p + b\<rparr>"
  by (simp add: Matrix3_transformPoint_def Matrix3_translation_def)

lemma sqrt_squares:
  "sqrt 4900 = 70" "sqrt 2500 = 50" "sqrt 260100 = 510" "sqrt 336400 = 580" "sqrt 8100 = 90"
  using real_sqrt_abs [of 70] real_sqrt_abs [of 50] real_sqrt_abs [of 510]
    real_sqrt_abs [of 580] real_sqrt_abs [of 90]
  by simp_all

lemma sqrt_7400: "\<not> sqrt 7400 < 1 / 10"
proof -
  have "1 \<le> sqrt 7400" by (rule real_sqrt_ge_one) simp
  then show ?thesis by linarith
qed

subsection \<open>The constructor's chain with the weight of Joint_2 raised\<close>

lemma weighted_heap_fields:
  "children (weighted_heap ''Root'') = [''Joint_1'']"
  "children (weighted_heap ''Joint_1'') = [''Joint_2'']"
  "children (weighted_heap ''Joint_2'') = [''EndEffector'']"
  "children (weighted_heap ''EndEffector'') = []"
  "parent (weighted_heap ''Root'') = None"
  "parent (weighted_heap ''Joint_1'') = Some ''Root''"
  "parent (weighted_heap ''Joint_2'') = Some ''Joint_1''"
  "parent (weighted_heap ''EndEffector'') = Some ''Joint_2''"
  "position (weighted_heap ''Root'') = \<lparr>x = 400, y = 300\<rparr>"
  "position (weighted_heap ''Joint_1'') = \<lparr>x = 60, y = 0\<rparr>"
  "position (weighted_heap ''Joint_2'') = \<lparr>x = 50, y = 0\<rparr>"
  "position (weighted_heap ''EndEffector'') = \<lparr>x = 40, y = 0\<rparr>"
  "angle (weighted_heap ''Root'') = 0" "angle (weighted_heap ''Joint_1'') = 0"
  "angle (weighted_heap ''Joint_2'') = 0" "angle (weighted_heap ''EndEffector'') = 0"
  by (simp_all add: weighted_heap_def JointChain_new_heap_def Joint_addChild_def new_Joint_def
        Let_def)

lemma weighted_heap_settings:
  "ikEnabled (weighted_heap ''EndEffector'')" "ikEnabled (weighted_heap ''Joint_2'')"
  "ikWeight (weighted_heap ''EndEffector'') = 1" "ikWeight (weighted_heap ''Joint_2'') = 2"
  "damping (weighted_heap ''Joint_2'') = 1 / 10"
  "constraints (weighted_heap ''Joint_2'') =
     \<lparr>enabled = True, minAngle = - pi * 0.6, maxAngle = pi * 0.6\<rparr>"
  "length_j (weighted_heap ''EndEffector'') = 30"
  by (simp_all add: weighted_heap_def JointChain_new_heap_def Joint_addChild_def new_Joint_def
        Let_def)

text \<open>The heap after \<open>root.updateTransform()\<close>: the joints lie on the line \<open>y = 300\<close>.\<close>

lemma weighted_heap_posed:
  "\<exists>hT. Joint_updateTransform 10 weighted_heap ''Root'' = Inr hT \<and>
     worldTransform (hT ''Joint_2'') = Matrix3_translation 510 300 \<and>
     worldTransform (hT ''EndEffector'') = Matrix3_translation 550 300 \<and>
     (\<forall>j. hT j = (weighted_heap j)\<lparr>localTransform := localTransform (hT j),
                                     worldTransform := worldTransform (hT j)\<rparr>)"
  by (simp add: eval_nat_numeral weighted_heap_fields Let_def rot0_translation
        translation_translation)

text \<open>What the posed heap has in common with the heap before.\<close>

lemma posed_fields:
  assumes f: "\<forall>j. hT j = (h j)\<lparr>localTransform := localTransform (hT j),
                                worldTransform := worldTransform (hT j)\<rparr>"
  shows "parent (hT j) = parent (h j) \<and> ikEnabled (hT j) = ikEnabled (h j) \<and>
         ikWeight (hT j) = ikWeight (h j) \<and> damping (hT j) = damping (h j) \<and>
         constraints (hT j) = constraints (h j) \<and> angle (hT j) = angle (h j) \<and>
         length_j (hT j) = length_j (h j)"
proof -
  define L where "L = localTransform (hT j)"
  define W where "W = worldTransform (hT j)"
  have eq: "hT j = (h j)\<lparr>localTransform := L, worldTransform := W\<rparr>"
    using f by (simp add: L_def W_def)
  show ?thesis by (simp add: eq)
qed

text \<open>
  On the posed chain the end effector is at \<open>(580, 300)\<close>.  A sweep towards \<open>tgt\<close> turns
  Joint_2, at \<open>(510, 300)\<close> with angle 0, weight 2 and the range \<open>[- 0.6 * pi, 0.6 * pi]\<close>, as
  \<open>sweepStep\<close> says.
\<close>

lemma posed_run:
  assumes w: "worldTransform (hT ''Joint_2'') = Matrix3_translation 510 300"
             "worldTransform (hT ''EndEffector'') = Matrix3_translation 550 300"
      and f: "\<forall>j. hT j = (weighted_heap j)\<lparr>localTransform := localTransform (hT j),
                                     worldTransform := worldTransform (hT j)\<rparr>"
  shows "parentPath hT (Some ''EndEffector'') [''EndEffector'', ''Joint_2'', ''Joint_1'', ''Root'']"
    and "ikEnabled (hT ''EndEffector'')" and "parent (hT ''EndEffector'') = Some ''Joint_2''"
    and "Joint_getEndEffectorPosition (hT ''EndEffector'') = \<lparr>x = 580, y = 300\<rparr>"
    and "Joint_getWorldPosition (hT ''Joint_2'') = \<lparr>x = 510, y = 300\<rparr>"
    and "ikEnabled (hT ''Joint_2'')" and "ikWeight (hT ''Joint_2'') = 2"
    and "ikWeight (hT ''EndEffector'') = 1" and "damping (hT ''Joint_2'') = 1 / 10"
    and "angle (hT ''Joint_2'') = 0"
    and "constraints (hT ''Joint_2'') =
           \<lparr>enabled = True, minAngle = - pi * 0.6, maxAngle = pi * 0.6\<rparr>"
  by (simp_all add: posed_fields [OF f] weighted_heap_fields weighted_heap_settings w
        Joint_getEndEffectorPosition_def Joint_getWorldPosition_def transformPoint_translation)


lemma clamp_quarter: "MathUtils_clamp (pi / 2) (- pi * 0.6) (pi * 0.6) = pi / 2"
proof -
  have "pi / 2 \<le> pi * 0.6" "- pi * 0.6 \<le> pi / 2" using pi_gt_zero by (simp, linarith)
  then show ?thesis by (simp add: MathUtils_clamp_def)
qed


text \<open>One iteration of \<open>updateIK\<close> towards \<open>(510, 350)\<close>, straight above Joint_2.\<close>

lemma posed_updateIK_above:
  assumes w: "worldTransform (hT ''Joint_2'') = Matrix3_translation 510 300"
             "worldTransform (hT ''EndEffector'') = Matrix3_translation 550 300"
      and f: "\<forall>j. hT j = (weighted_heap j)\<lparr>localTransform := localTransform (hT j),
                                     worldTransform := worldTransform (hT j)\<rparr>"
  shows "\<exists>h1. Joint_updateIK ''EndEffector'' \<lparr>x = 510, y = 350\<rparr> 1 (1 / 10) hT = Inr h1 \<and>
           h1 ''Joint_2'' = (hT ''Joint_2'')\<lparr>targetAngle := pi, angle := 9 * pi / 10\<rparr>"
proof -
  let ?T = "\<lparr>x = 510, y = 350\<rparr> :: Vector2"
  let ?e = "\<lparr>x = 580, y = 300\<rparr> :: Vector2"
  let ?js = "[''EndEffector'', ''Joint_2'', ''Joint_1'', ''Root'']"
  note p = posed_run [OF w f]
  have far: "\<not> Vector2_distance (Joint_getEndEffectorPosition (hT ''EndEffector'')) ?T < 1 / 10"
    using sqrt_7400
    by (simp add: p(4) Vector2_distance_def Vector2_magnitude_def Vector2_subtract_def)
  have par: "parent (hT ''EndEffector'') \<noteq> None" using p(3) by simp
  have run: "Joint_updateIK ''EndEffector'' ?T 1 (1 / 10) hT =
          Inr ((sweepHeap ''EndEffector'' ?js ?e ?T ^^ 1) hT)"
    using Joint_updateIK_sweepHeap [OF p(1) p(2) par far, of 1] by (simp only: p(4))
  have ang: "Vector2_angle (Vector2_subtract ?T \<lparr>x = 510, y = 300\<rparr>)
               - Vector2_angle (Vector2_subtract ?e \<lparr>x = 510, y = 300\<rparr>) = pi / 2"
    by (simp add: Vector2_angle_def Vector2_subtract_def atan2_def)
  have mags: "Vector2_magnitude (Vector2_subtract ?e \<lparr>x = 510, y = 300\<rparr>) > 0"
             "Vector2_magnitude (Vector2_subtract ?T \<lparr>x = 510, y = 300\<rparr>) > 0"
    by (simp_all add: Vector2_magnitude_def Vector2_subtract_def sqrt_squares)
  have "sweepStep 1 ?e ?T (hT ''Joint_2'') =
          (hT ''Joint_2'')\<lparr>targetAngle := pi, angle := 9 * pi / 10\<rparr>"
    unfolding sweepStep_def Let_def p(5) ang
    using mags p(6) clamp_quarter by (simp add: p(7,9,10,11))
  then have "(sweepHeap ''EndEffector'' ?js ?e ?T ^^ 1) hT ''Joint_2'' =
          (hT ''Joint_2'')\<lparr>targetAngle := pi, angle := 9 * pi / 10\<rparr>"
    by (simp add: sweepHeap_def p(8))
  then show ?thesis using run by blast
qed

text \<open>
  C3, for \<open>Joint.updateIK\<close>.  In the constructor's chain, posed by \<open>updateTransform\<close>,
  Joint_2 has enabled constraints with the range \<open>[- 0.6 * pi, 0.6 * pi]\<close> and the angle 0; its
  IK weight is 2.  One iteration of \<open>updateIK\<close> on the end effector with the target
  \<open>(510, 350)\<close> clamps the new angle \<open>pi / 2\<close>, which is in the range, then doubles the
  rotation to \<open>pi\<close> and blends with \<open>1 - damping = 0.9\<close>: the angle of Joint_2 becomes
  \<open>0.9 * pi\<close>, above the maximum, with the constraint block as it was.
\<close>

theorem updateIK_leaves_constraint_range:
  "enabled (constraints (weighted_heap ''Joint_2'')) \<and>
   angleInRange (weighted_heap ''Joint_2'') \<and>
   ikWeight (weighted_heap ''Joint_2'') = 2 \<and>
   (case bindE (Joint_updateTransform 10 weighted_heap ''Root'')
           (Joint_updateIK ''EndEffector'' \<lparr>x = 510, y = 350\<rparr> 1 (1 / 10)) of
      Inl e \<Rightarrow> False
    | Inr h \<Rightarrow>
        constraints (h ''Joint_2'') =
          \<lparr>enabled = True, minAngle = - pi * 0.6, maxAngle = pi * 0.6\<rparr> \<and>
        angle (h ''Joint_2'') = 9 * pi / 10 \<and>
        targetAngle (h ''Joint_2'') = pi \<and>
        \<not> angleInRange (h ''Joint_2''))"
proof -
  obtain hT where t: "Joint_updateTransform 10 weighted_heap ''Root'' = Inr hT"
      and w: "worldTransform (hT ''Joint_2'') = Matrix3_translation 510 300"
             "worldTransform (hT ''EndEffector'') = Matrix3_translation 550 300"
      and f: "\<forall>j. hT j = (weighted_heap j)\<lparr>localTransform := localTransform (hT j),
                                     worldTransform := worldTransform (hT j)\<rparr>"
    using weighted_heap_posed by blast
  obtain h1 where u: "Joint_updateIK ''EndEffector'' \<lparr>x = 510, y = 350\<rparr> 1 (1 / 10) hT = Inr h1"
      and v: "h1 ''Joint_2'' = (hT ''Joint_2'')\<lparr>targetAngle := pi, angle := 9 * pi / 10\<rparr>"
    using posed_updateIK_above [OF w f] by blast
  note p = posed_run [OF w f]
  have i: "enabled (constraints (weighted_heap ''Joint_2''))"
          "angleInRange (weighted_heap ''Joint_2'')"
    using pi_gt_zero
    by (simp_all add: angleInRange_def weighted_heap_settings weighted_heap_fields)
  have o: "\<not> angleInRange (h1 ''Joint_2'')"
    using pi_gt_zero by (simp add: angleInRange_def v p(11))
  have run: "bindE (Joint_updateTransform 10 weighted_heap ''Root'')
           (Joint_updateIK ''EndEffector'' \<lparr>x = 510, y = 350\<rparr> 1 (1 / 10)) = Inr h1"
    unfolding t bindE_Inr by (rule u)
  show ?thesis
    unfolding run using i o by (simp add: v p(11) weighted_heap_settings)
qed


text \<open>
  The run in plain terms: \<open>updateTransform\<close> returns the posed heap, on which the end
  effector has IK enabled and a parent, so that \<open>updateIK\<close> sweeps; it returns a heap in which
  Joint_2, its constraints enabled, has an angle above its maximum.
\<close>

theorem updateIK_leaves_constraint_range_witness:
  "\<exists>hT h. Joint_updateTransform 10 weighted_heap ''Root'' = Inr hT \<and>
      ikEnabled (hT ''EndEffector'') \<and> parent (hT ''EndEffector'') = Some ''Joint_2'' \<and>
      Joint_updateIK ''EndEffector'' \<lparr>x = 510, y = 350\<rparr> 1 (1 / 10) hT = Inr h \<and>
      enabled (constraints (h ''Joint_2'')) \<and>
      maxAngle (constraints (h ''Joint_2'')) = pi * 0.6 \<and>
      angle (h ''Joint_2'') = 9 * pi / 10 \<and>
      maxAngle (constraints (h ''Joint_2'')) < angle (h ''Joint_2'')"
proof -
  obtain hT where t: "Joint_updateTransform 10 weighted_heap ''Root'' = Inr hT"
      and w: "worldTransform (hT ''Joint_2'') = Matrix3_translation 510 300"
             "worldTransform (hT ''EndEffector'') = Matrix3_translation 550 300"
      and f: "\<forall>j. hT j = (weighted_heap j)\<lparr>localTransform := localTransform (hT j),
                                     worldTransform := worldTransform (hT j)\<rparr>"
    using weighted_heap_posed by blast
  note p = posed_run [OF w f]
  have "case Joint_updateIK ''EndEffector'' \<lparr>x = 510, y = 350\<rparr> 1 (1 / 10) hT of
      Inl e \<Rightarrow> False
    | Inr h \<Rightarrow>
        constraints (h ''Joint_2'') =
          \<lparr>enabled = True, minAngle = - pi * 0.6, maxAngle = pi * 0.6\<rparr> \<and>
        angle (h ''Joint_2'') = 9 * pi / 10 \<and>
        targetAngle (h ''Joint_2'') = pi \<and>
        \<not> angleInRange (h ''Joint_2'')"
    using updateIK_leaves_constraint_range by (simp add: t)
  then obtain h where
    u: "Joint_updateIK ''EndEffector'' \<lparr>x = 510, y = 350\<rparr> 1 (1 / 10) hT = Inr h" and
    c: "constraints (h ''Joint_2'') =
          \<lparr>enabled = True, minAngle = - pi * 0.6, maxAngle = pi * 0.6\<rparr>" and
    a: "angle (h ''Joint_2'') = 9 * pi / 10"
    by (auto split: sum.splits)
  have m: "maxAngle (constraints (h ''Joint_2'')) < angle (h ''Joint_2'')"
    using pi_gt_zero by (simp add: c a)
  have e: "enabled (constraints (h ''Joint_2''))"
          "maxAngle (constraints (h ''Joint_2'')) = pi * 0.6"
    by (simp_all add: c)
  show ?thesis using t p(2,3) u e a m by blast
qed


subsection \<open>The chain whose tip lies to the left of its root\<close>






end
